theory Spec2Isabelle
  imports Complex_Main
begin

section \<open>Data model\<close>

text \<open>
  One row of the catalog dataframe (\<open>self._df\<close>), with the columns the service reads.
  The dataframe carries pandas' default index, so a row's index label is its position.
  Floating-point columns are idealised as reals; the vote count is a non-negative integer.
\<close>

record movie =
  title :: string
  vote_average :: real
  vote_count :: nat
  overview :: string
  genres :: string

text \<open>
  The three components that \<open>_load_model\<close> reads out of the pickled dictionary:
  the dataframe, the embedding matrix (one row per movie) and the flat list of titles.
\<close>

record store =
  df :: "movie list"
  embeddings :: "real list list"
  movie_titles :: "string list"

datatype py_error = FileNotFoundError | UnpicklingError | KeyError | IndexError | ValueError

section \<open>Presentation rounding\<close>

text \<open>
  \<open>round(x, n)\<close>: the nearest multiple of \<open>10 ^ -n\<close>, a tie going to the even
  neighbour.
\<close>

definition round_half_even :: "real \<Rightarrow> int" where
  "round_half_even x =
     (let f = \<lfloor>x\<rfloor>; d = x - of_int f
      in if d < 1 / 2 then f else if 1 / 2 < d then f + 1 else if even f then f else f + 1)"

definition py_round :: "real \<Rightarrow> nat \<Rightarrow> real" where
  "py_round x n = of_int (round_half_even (x * 10 ^ n)) / 10 ^ n"

section \<open>Title resolver: rapidfuzz\<close>

text \<open>
  \<open>fuzz.ratio\<close> is the normalised Indel similarity scaled to 0..100: with
  \<open>maximum = len(s1) + len(s2)\<close> and \<open>dist = maximum - 2 * lcs(s1, s2)\<close>, the normalised
  distance is \<open>0\<close> when \<open>maximum = 0\<close> and \<open>dist / maximum\<close> otherwise, and the score is
  \<open>(1 - norm_dist) * 100\<close>. No processor is given, so strings are compared as they are.
\<close>

fun lcs_seq_similarity :: "string \<Rightarrow> string \<Rightarrow> nat" where
  "lcs_seq_similarity [] ys = 0"
| "lcs_seq_similarity (x # xs) [] = 0"
| "lcs_seq_similarity (x # xs) (y # ys) =
     (if x = y then Suc (lcs_seq_similarity xs ys)
      else max (lcs_seq_similarity (x # xs) ys) (lcs_seq_similarity xs (y # ys)))"

definition indel_distance :: "string \<Rightarrow> string \<Rightarrow> nat" where
  "indel_distance s1 s2 = (length s1 + length s2) - 2 * lcs_seq_similarity s1 s2"

definition indel_normalized_similarity :: "string \<Rightarrow> string \<Rightarrow> real" where
  "indel_normalized_similarity s1 s2 =
     (let maximum = length s1 + length s2;
          dist = indel_distance s1 s2;
          norm_dist = (if maximum = 0 then 0 else real dist / real maximum)
      in 1 - norm_dist)"

definition ratio :: "string \<Rightarrow> string \<Rightarrow> real" where
  "ratio s1 s2 = indel_normalized_similarity s1 s2 * 100"

text \<open>
  \<open>process.extract_iter\<close>: every choice with its score and its position. No
  \<open>score_cutoff\<close> is passed, so no choice is dropped.
\<close>

definition extract_iter :: "string \<Rightarrow> string list \<Rightarrow> (string \<times> real \<times> nat) list" where
  "extract_iter query choices =
     map (\<lambda>(idx, choice). (choice, ratio query choice, idx)) (enumerate 0 choices)"

text \<open>
  \<open>process.extractOne\<close>: one pass that keeps a result and replaces it only by a strictly
  higher score, so the first of the best-scoring choices wins; \<open>None\<close> without choices.
\<close>

definition extractOne_step ::
  "(string \<times> real \<times> nat) option \<Rightarrow> (string \<times> real \<times> nat) \<Rightarrow> (string \<times> real \<times> nat) option" where
  "extractOne_step result r =
     (case result of
        None \<Rightarrow> Some r
      | Some b \<Rightarrow> if fst (snd b) < fst (snd r) then Some r else Some b)"

definition process_extractOne :: "string \<Rightarrow> string list \<Rightarrow> (string \<times> real \<times> nat) option" where
  "process_extractOne query choices = foldl extractOne_step None (extract_iter query choices)"

text \<open>
  \<open>process.extract\<close> with a \<open>limit\<close>: the \<open>limit\<close> best results, best first, equal scores
  in the order of the choices (\<open>heapq.nlargest\<close>, that is
  \<open>sorted(..., reverse=True)[:limit]\<close>; nothing for a limit below one).
\<close>

definition process_extract :: "string \<Rightarrow> string list \<Rightarrow> int \<Rightarrow> (string \<times> real \<times> nat) list" where
  "process_extract query choices limit =
     take (nat limit) (sort_key (\<lambda>r. - fst (snd r)) (extract_iter query choices))"

section \<open>Service operations: search and resolution\<close>

record search_result =
  s_title :: string
  s_match_score :: real
  s_rating :: real
  s_votes :: nat

text \<open>
  The loop of \<open>search_movie\<close> over the matches; \<open>self._df.iloc[idx]\<close> raises
  \<open>IndexError\<close> for a position outside the dataframe.
\<close>

definition make_search_result :: "movie \<Rightarrow> real \<Rightarrow> search_result" where
  "make_search_result movie score =
     \<lparr>s_title = title movie,
      s_match_score = py_round score 1,
      s_rating = py_round (vote_average movie) 1,
      s_votes = vote_count movie\<rparr>"

fun search_loop ::
  "movie list \<Rightarrow> (string \<times> real \<times> nat) list \<Rightarrow> search_result list \<Rightarrow> py_error + search_result list" where
  "search_loop d [] results = Inr results"
| "search_loop d ((match, score, idx) # matches) results =
     (if idx < length d
      then (let movie = d ! idx
            in search_loop d matches (results @ [make_search_result movie score]))
      else Inl IndexError)"

definition search_movie :: "store \<Rightarrow> string \<Rightarrow> int \<Rightarrow> py_error + search_result list" where
  "search_movie st query limit =
     (let matches = process_extract query (movie_titles st) limit
      in search_loop (df st) matches [])"

definition find_movie :: "store \<Rightarrow> string \<Rightarrow> int \<Rightarrow> string option" where
  "find_movie st ttl threshold =
     (case process_extractOne ttl (movie_titles st) of
        None \<Rightarrow> None
      | Some (match, score, idx) \<Rightarrow> if real_of_int threshold \<le> score then Some match else None)"

section \<open>Numpy floating-point values\<close>

text \<open>
  Values of the float columns computed by the engine. A finite value is idealised as a
  real (no rounding error, no signed zero); the special values of IEEE arithmetic are kept,
  since numpy's element-wise division returns them instead of raising: \<open>0 / 0\<close> is
  \<open>nan\<close> and \<open>x / 0\<close> is an infinity.
\<close>

datatype npfloat = Finite real | PosInf | NegInf | NaN

definition np_inf :: "bool \<Rightarrow> npfloat" where
  "np_inf positive = (if positive then PosInf else NegInf)"

fun np_add :: "npfloat \<Rightarrow> npfloat \<Rightarrow> npfloat" where
  "np_add (Finite a) (Finite b) = Finite (a + b)"
| "np_add NaN y = NaN"
| "np_add x NaN = NaN"
| "np_add PosInf NegInf = NaN"
| "np_add NegInf PosInf = NaN"
| "np_add PosInf y = PosInf"
| "np_add x PosInf = PosInf"
| "np_add NegInf y = NegInf"
| "np_add x NegInf = NegInf"

fun np_mul :: "npfloat \<Rightarrow> npfloat \<Rightarrow> npfloat" where
  "np_mul (Finite a) (Finite b) = Finite (a * b)"
| "np_mul NaN y = NaN"
| "np_mul x NaN = NaN"
| "np_mul (Finite a) PosInf = (if a = 0 then NaN else np_inf (0 < a))"
| "np_mul (Finite a) NegInf = (if a = 0 then NaN else np_inf (a < 0))"
| "np_mul PosInf (Finite b) = (if b = 0 then NaN else np_inf (0 < b))"
| "np_mul NegInf (Finite b) = (if b = 0 then NaN else np_inf (b < 0))"
| "np_mul PosInf PosInf = PosInf"
| "np_mul NegInf NegInf = PosInf"
| "np_mul PosInf NegInf = NegInf"
| "np_mul NegInf PosInf = NegInf"

fun np_div :: "npfloat \<Rightarrow> npfloat \<Rightarrow> npfloat" where
  "np_div (Finite a) (Finite b) =
     (if b \<noteq> 0 then Finite (a / b) else if a = 0 then NaN else np_inf (0 < a))"
| "np_div NaN y = NaN"
| "np_div x NaN = NaN"
| "np_div (Finite a) PosInf = Finite 0"
| "np_div (Finite a) NegInf = Finite 0"
| "np_div PosInf (Finite b) = np_inf (0 \<le> b)"
| "np_div NegInf (Finite b) = np_inf (b < 0)"
| "np_div PosInf PosInf = NaN"
| "np_div PosInf NegInf = NaN"
| "np_div NegInf PosInf = NaN"
| "np_div NegInf NegInf = NaN"

fun np_log1p :: "npfloat \<Rightarrow> npfloat" where
  "np_log1p (Finite x) =
     (if - 1 < x then Finite (ln (1 + x)) else if x = - 1 then NegInf else NaN)"
| "np_log1p PosInf = PosInf"
| "np_log1p NegInf = NaN"
| "np_log1p NaN = NaN"

fun np_round :: "npfloat \<Rightarrow> nat \<Rightarrow> npfloat" where
  "np_round (Finite x) n = Finite (py_round x n)"
| "np_round v n = v"

text \<open>\<open>Series.max()\<close> of the vote counts: \<open>nan\<close> for an empty column.\<close>

fun series_max :: "nat list \<Rightarrow> npfloat" where
  "series_max [] = NaN"
| "series_max (x # xs) = Finite (real (fold max xs x))"

section \<open>Cosine similarity: scikit-learn\<close>

text \<open>
  \<open>cosine_similarity(X, Y)\<close> normalises the rows of both arguments to unit length, a
  row of norm zero being left as it is (its norm is replaced by one), and returns the dot
  products. The engine passes the anchor's embedding as the only row of \<open>X\<close> and reads
  row \<open>0\<close> of the result: one value per row of the embedding matrix. (The library
  takes a floating-point norm below ten machine epsilons for zero; over the reals this is a
  norm of exactly zero.)
\<close>

definition l2_norm :: "real list \<Rightarrow> real" where
  "l2_norm v = sqrt (\<Sum>x\<leftarrow>v. x * x)"

definition normalize_row :: "real list \<Rightarrow> real list" where
  "normalize_row v =
     (let norm = l2_norm v; norm' = (if norm = 0 then 1 else norm)
      in map (\<lambda>x. x / norm') v)"

definition dot :: "real list \<Rightarrow> real list \<Rightarrow> real" where
  "dot u v = (\<Sum>(a, b)\<leftarrow>zip u v. a * b)"

definition cosine :: "real list \<Rightarrow> real list \<Rightarrow> real" where
  "cosine x y = dot (normalize_row x) (normalize_row y)"

definition cosine_similarity :: "real list \<Rightarrow> real list list \<Rightarrow> real list" where
  "cosine_similarity x ys = map (cosine x) ys"

section \<open>Recommendation engine\<close>

text \<open>A row of the working dataframe \<open>df_work\<close>: the catalog row and the added columns.\<close>

record work_row =
  w_index :: nat
  w_movie :: movie
  w_similarity :: real
  w_quality_score :: npfloat
  w_final_score :: npfloat

definition quality_score :: "npfloat \<Rightarrow> movie \<Rightarrow> npfloat" where
  "quality_score log_max m =
     np_add
       (np_mul (np_div (Finite (vote_average m)) (Finite 10)) (Finite 0.7))
       (np_mul (np_div (np_log1p (Finite (real (vote_count m)))) log_max) (Finite 0.3))"

definition final_score :: "real \<Rightarrow> npfloat \<Rightarrow> npfloat" where
  "final_score sim q = np_add (np_mul (Finite sim) (Finite 0.6)) (np_mul q (Finite 0.4))"

definition make_work_row :: "npfloat \<Rightarrow> nat \<times> movie \<times> real \<Rightarrow> work_row" where
  "make_work_row log_max r =
     (case r of (idx, m, sim) \<Rightarrow>
        (let q = quality_score log_max m
         in \<lparr>w_index = idx, w_movie = m, w_similarity = sim,
             w_quality_score = q, w_final_score = final_score sim q\<rparr>))"

definition df_work :: "movie list \<Rightarrow> real list \<Rightarrow> work_row list" where
  "df_work d similarities =
     (let log_max = np_log1p (series_max (map vote_count d))
      in map (make_work_row log_max) (zip [0..<length d] (zip d similarities)))"

definition filter_rows :: "int \<Rightarrow> real \<Rightarrow> nat \<Rightarrow> work_row list \<Rightarrow> work_row list" where
  "filter_rows min_votes min_rating movie_idx rows =
     filter (\<lambda>w. min_votes \<le> int (vote_count (w_movie w))
               \<and> min_rating \<le> vote_average (w_movie w)
               \<and> w_index w \<noteq> movie_idx) rows"

text \<open>
  \<open>DataFrame.nlargest(n, 'final_score')\<close> with the default \<open>keep='first'\<close>: the rows in
  descending order of the column, equal values in their original order, rows whose value
  is \<open>nan\<close> after all others; the first \<open>n\<close> of them, none for \<open>n\<close> below one.
\<close>

fun the_finite :: "npfloat \<Rightarrow> real" where
  "the_finite (Finite x) = x"
| "the_finite v = 0"

fun is_finite :: "npfloat \<Rightarrow> bool" where
  "is_finite (Finite x) = True"
| "is_finite v = False"

definition sort_values_desc :: "work_row list \<Rightarrow> work_row list" where
  "sort_values_desc rows =
     filter (\<lambda>w. w_final_score w = PosInf) rows
     @ sort_key (\<lambda>w. - the_finite (w_final_score w)) (filter (\<lambda>w. is_finite (w_final_score w)) rows)
     @ filter (\<lambda>w. w_final_score w = NegInf) rows
     @ filter (\<lambda>w. w_final_score w = NaN) rows"

definition nlargest :: "int \<Rightarrow> work_row list \<Rightarrow> work_row list" where
  "nlargest n rows = (if n \<le> 0 then [] else take (nat n) (sort_values_desc rows))"

record recommendation =
  r_title :: string
  r_rating :: real
  r_votes :: nat
  r_similarity :: real
  r_score :: npfloat

definition format_row :: "work_row \<Rightarrow> recommendation" where
  "format_row w =
     \<lparr>r_title = title (w_movie w),
      r_rating = py_round (vote_average (w_movie w)) 1,
      r_votes = vote_count (w_movie w),
      r_similarity = py_round (w_similarity w) 3,
      r_score = np_round (w_final_score w) 3\<rparr>"

datatype response =
  NotFound string "search_result list"
| Recommendations string nat "recommendation list"

text \<open>
  The positions of the rows selected by \<open>self._df['title'] == matched_title\<close>, in
  catalog order.
\<close>

definition title_matches :: "movie list \<Rightarrow> string \<Rightarrow> nat list" where
  "title_matches d t = filter (\<lambda>i. title (d ! i) = t) [0..<length d]"

definition not_found :: "store \<Rightarrow> string \<Rightarrow> py_error + response" where
  "not_found st movie_name =
     (case search_movie st movie_name 3 of
        Inl e \<Rightarrow> Inl e
      | Inr suggestions \<Rightarrow>
          Inr (NotFound (''Movie '' @ [CHR 0x27] @ movie_name @ [CHR 0x27] @ '' not found'')
                 suggestions))"

text \<open>
  The rows that \<open>get_recommendations\<close> selects for an anchor position, before they are
  formatted.
\<close>

definition recommended_rows :: "store \<Rightarrow> nat \<Rightarrow> int \<Rightarrow> int \<Rightarrow> real \<Rightarrow> work_row list" where
  "recommended_rows st movie_idx top_n min_votes min_rating =
     (let movie_embedding = embeddings st ! movie_idx;
          similarities = cosine_similarity movie_embedding (embeddings st);
          work = df_work (df st) similarities;
          filtered = filter_rows min_votes min_rating movie_idx work
      in nlargest top_n filtered)"

text \<open>
  \<open>get_recommendations\<close>. A title that is \<open>None\<close> or empty is not a match
  (\<open>if not matched_title\<close>). \<open>.index[0]\<close> raises \<open>IndexError\<close> when no row of the
  dataframe bears the matched title, \<open>self._embeddings[movie_idx]\<close> when the embedding
  matrix is too short; scikit-learn raises \<open>ValueError\<close> for vectors without components,
  and assigning the similarity column does when the matrix and the dataframe differ in
  length.
\<close>

definition get_recommendations ::
  "store \<Rightarrow> string \<Rightarrow> int \<Rightarrow> int \<Rightarrow> real \<Rightarrow> py_error + response" where
  "get_recommendations st movie_name top_n min_votes min_rating =
     (case find_movie st movie_name 60 of
        None \<Rightarrow> not_found st movie_name
      | Some matched_title \<Rightarrow>
          if matched_title = [] then not_found st movie_name
          else (case title_matches (df st) matched_title of
                  [] \<Rightarrow> Inl IndexError
                | movie_idx # _ \<Rightarrow>
                    if length (embeddings st) \<le> movie_idx then Inl IndexError
                    else if [] \<in> set (embeddings st) then Inl ValueError
                    else if length (embeddings st) \<noteq> length (df st) then Inl ValueError
                    else (let results = map format_row
                                (recommended_rows st movie_idx top_n min_votes min_rating)
                          in Inr (Recommendations matched_title (length results) results))))"



section \<open>Catalog store: loading the artifact\<close>

text \<open>
  The pickled artifact is a dictionary from keys to objects. The file system and the
  unpickler are parameters: \<open>open_read\<close> gives the bytes at a path or the exception of
  \<open>open\<close> (\<open>FileNotFoundError\<close> for a path that does not resolve), \<open>pickle_load\<close> the
  dictionary or the exception of \<open>pickle.load\<close>.
\<close>

datatype pyobj = DataFrame "movie list" | NDArray "real list list" | StrList "string list"

type_synonym artifact = "string \<rightharpoonup> pyobj"

fun obj_len :: "pyobj \<Rightarrow> nat" where
  "obj_len (DataFrame d) = length d"
| "obj_len (NDArray e) = length e"
| "obj_len (StrList t) = length t"

record service =
  model_path :: string
  s_model :: "artifact option"
  s_df :: "pyobj option"
  s_embeddings :: "pyobj option"
  s_movie_titles :: "pyobj option"

text \<open>
  \<open>_load_model\<close>: both \<open>except\<close> clauses log and re-raise, so the exception leaves the
  method as it was raised; the attributes assigned before it keep their new values.
  The result is the exception, if any, and the service afterwards.
\<close>

definition load_model ::
  "(string \<Rightarrow> py_error + string) \<Rightarrow> (string \<Rightarrow> py_error + artifact) \<Rightarrow> service
     \<Rightarrow> py_error option \<times> service" where
  "load_model open_read pickle_load s =
     (case open_read (model_path s) of
        Inl e \<Rightarrow> (Some e, s)
      | Inr bytes \<Rightarrow>
          (case pickle_load bytes of
             Inl e \<Rightarrow> (Some e, s)
           | Inr m \<Rightarrow>
               (let s1 = s\<lparr>s_model := Some m\<rparr>
                in case m ''dataframe'' of
                     None \<Rightarrow> (Some KeyError, s1)
                   | Some d \<Rightarrow>
                       (let s2 = s1\<lparr>s_df := Some d\<rparr>
                        in case m ''embeddings'' of
                             None \<Rightarrow> (Some KeyError, s2)
                           | Some e \<Rightarrow>
                               (let s3 = s2\<lparr>s_embeddings := Some e\<rparr>
                                in case m ''movie_titles'' of
                                     None \<Rightarrow> (Some KeyError, s3)
                                   | Some t \<Rightarrow> (None, s3\<lparr>s_movie_titles := Some t\<rparr>))))))"

text \<open>The \<open>model\<close> property: load on first use, nothing once \<open>_model\<close> is set.\<close>

definition model ::
  "(string \<Rightarrow> py_error + string) \<Rightarrow> (string \<Rightarrow> py_error + artifact) \<Rightarrow> service
     \<Rightarrow> py_error option \<times> service" where
  "model open_read pickle_load s =
     (if s_model s = None then load_model open_read pickle_load s else (None, s))"

section \<open>The formulas as the specification words them\<close>

text \<open>
  The quality and final-score formulas of the specification, over the reals, for
  comparison with \<open>quality_score\<close> and \<open>final_score\<close> above; \<open>log1p(x)\<close> is
  \<open>ln (1 + x)\<close>.
\<close>

definition spec_quality :: "real \<Rightarrow> nat \<Rightarrow> nat \<Rightarrow> real" where
  "spec_quality rating voteCount maxVoteCountAcrossCatalog =
     0.7 * (rating / 10)
     + 0.3 * (ln (1 + real voteCount) / ln (1 + real maxVoteCountAcrossCatalog))"

definition spec_final_score :: "real \<Rightarrow> real \<Rightarrow> real" where
  "spec_final_score similarity quality = 0.6 * similarity + 0.4 * quality"

section \<open>Example catalogs\<close>

definition ex_movie :: "string \<Rightarrow> real \<Rightarrow> nat \<Rightarrow> movie" where
  "ex_movie t r v = \<lparr>title = t, vote_average = r, vote_count = v, overview = [], genres = []\<rparr>"

definition ex_store :: store where
  "ex_store =
     \<lparr>df = [ex_movie ''Heat'' 8.2 100, ex_movie ''Heat 2'' 6.84 100,
            ex_movie ''Up'' 7.9 100, ex_movie ''Big'' 6.04 0],
      embeddings = [[1, 0], [4 / 5, 3 / 5], [3 / 5, 4 / 5], [0, 1]],
      movie_titles = [''Heat'', ''Heat 2'', ''Up'', ''Big'']\<rparr>"

text \<open>The catalog \<open>ex_store\<close> with embeddings that are not of unit length.\<close>

definition scaled_store :: store where
  "scaled_store =
     \<lparr>df = [ex_movie ''Heat'' 8.2 100, ex_movie ''Heat 2'' 6.84 100,
            ex_movie ''Up'' 7.9 100, ex_movie ''Big'' 6.04 0],
      embeddings = [[2, 0], [4, 3], [3, 4], [0, 2]],
      movie_titles = [''Heat'', ''Heat 2'', ''Up'', ''Big'']\<rparr>"

text \<open>A catalog with two rows that bear the same title.\<close>

definition dup_store :: store where
  "dup_store =
     \<lparr>df = [ex_movie ''Heat'' 8.2 100, ex_movie ''Heat'' 7.5 100, ex_movie ''Up'' 7.9 100],
      embeddings = [[1, 0], [4 / 5, 3 / 5], [0, 1]],
      movie_titles = [''Heat'', ''Heat'', ''Up'']\<rparr>"

text \<open>A catalog in which no row has a vote.\<close>

definition zero_store :: store where
  "zero_store =
     \<lparr>df = [ex_movie ''Heat'' 8.2 0, ex_movie ''Up'' 7.9 0],
      embeddings = [[1, 0], [0, 1]],
      movie_titles = [''Heat'', ''Up'']\<rparr>"

text \<open>A catalog with a title made of single letters and spaces.\<close>

definition spaced_store :: store where
  "spaced_store =
     \<lparr>df = [ex_movie ''A B C D'' 7 10], embeddings = [[1]], movie_titles = [''A B C D'']\<rparr>"

text \<open>An artifact whose three collections have the lengths 2, 1 and 3.\<close>

definition bad_artifact :: artifact where
  "bad_artifact =
     [''dataframe'' \<mapsto> DataFrame [ex_movie ''Heat'' 8.2 100, ex_movie ''Up'' 7.9 100],
      ''embeddings'' \<mapsto> NDArray [[1, 0]],
      ''movie_titles'' \<mapsto> StrList [''Heat'', ''Up'', ''Big'']]"

text \<open>
  The three collections of \<open>bad_artifact\<close> as a store: two catalog rows, one embedding,
  three titles.
\<close>

definition bad_store :: store where
  "bad_store =
     \<lparr>df = [ex_movie ''Heat'' 8.2 100, ex_movie ''Up'' 7.9 100],
      embeddings = [[1, 0]],
      movie_titles = [''Heat'', ''Up'', ''Big'']\<rparr>"

definition new_service :: service where
  "new_service =
     \<lparr>model_path = ''./model/movie_recommender_model.pkl'', s_model = None, s_df = None,
      s_embeddings = None, s_movie_titles = None\<rparr>"

section \<open>The fuzzy matcher\<close>

lemma search_loop_map:
  "\<forall>r\<in>set ms. snd (snd r) < length d \<Longrightarrow>
   search_loop d ms acc = Inr (acc @ map (\<lambda>r. make_search_result (d ! snd (snd r)) (fst (snd r))) ms)"
  by (induction d ms acc rule: search_loop.induct) auto

lemma search_loop_length:
  "search_loop d ms acc = Inr rs \<Longrightarrow> length rs = length acc + length ms"
  by (induction d ms acc arbitrary: rs rule: search_loop.induct) (auto split: if_splits)

lemma length_extract_iter: "length (extract_iter q cs) = length cs"
  by (simp add: extract_iter_def)

lemma nth_extract_iter: "i < length cs \<Longrightarrow> extract_iter q cs ! i = (cs ! i, ratio q (cs ! i), i)"
  by (simp add: extract_iter_def nth_enumerate_eq)

lemma set_extract_iter: "set (extract_iter q cs) = (\<lambda>i. (cs ! i, ratio q (cs ! i), i)) ` {..<length cs}"
proof -
  have "set (extract_iter q cs) = {extract_iter q cs ! i | i. i < length cs}"
    by (simp add: set_conv_nth length_extract_iter)
  also have "\<dots> = {(cs ! i, ratio q (cs ! i), i) | i. i < length cs}"
    using nth_extract_iter by metis
  also have "\<dots> = (\<lambda>i. (cs ! i, ratio q (cs ! i), i)) ` {..<length cs}" by auto
  finally show ?thesis .
qed

lemma length_process_extract: "length (process_extract q cs limit) = min (nat limit) (length cs)"
  by (simp add: process_extract_def length_extract_iter)

lemma set_process_extract: "set (process_extract q cs limit) \<subseteq> set (extract_iter q cs)"
  unfolding process_extract_def using set_take_subset[of "nat limit" "sort_key (\<lambda>r. - fst (snd r)) (extract_iter q cs)"] by simp

lemma search_movie_ok:
  assumes "length (movie_titles st) \<le> length (df st)"
  shows "search_movie st q limit =
     Inr (map (\<lambda>r. make_search_result (df st ! snd (snd r)) (fst (snd r))) (process_extract q (movie_titles st) limit))"
proof -
  have "\<forall>r\<in>set (process_extract q (movie_titles st) limit). snd (snd r) < length (df st)"
    using set_process_extract[of q "movie_titles st" limit] assms
    by (auto simp: set_extract_iter)
  from search_loop_map[OF this, of "[]"] show ?thesis by (simp add: search_movie_def)
qed

lemma search_movie_length:
  "search_movie st q limit = Inr rs \<Longrightarrow> length rs = min (nat limit) (length (movie_titles st))"
  by (auto simp: search_movie_def Let_def length_process_extract dest!: search_loop_length)

lemma extractOne_step_Some:
  "extractOne_step (Some b) x = (if fst (snd b) < fst (snd x) then Some x else Some b)"
  by (simp add: extractOne_step_def)

lemma extractOne_step_None: "extractOne_step None x = Some x"
  by (simp add: extractOne_step_def)

lemma foldl_extractOne_Some:
  "\<exists>r. foldl extractOne_step (Some b) xs = Some r"
  by (induction xs arbitrary: b) (auto simp: extractOne_step_Some)

lemma foldl_extractOne_best:
  "foldl extractOne_step (Some b) xs = Some r \<Longrightarrow>
     (r = b \<or> r \<in> set xs) \<and> fst (snd b) \<le> fst (snd r) \<and> (\<forall>x\<in>set xs. fst (snd x) \<le> fst (snd r))"
proof (induction xs arbitrary: b)
  case Nil then show ?case by simp
next
  case (Cons x xs)
  show ?case
  proof (cases "fst (snd b) < fst (snd x)")
    case True
    with Cons.prems have "foldl extractOne_step (Some x) xs = Some r" by (simp add: extractOne_step_Some)
    from Cons.IH[OF this] True show ?thesis by auto
  next
    case False
    with Cons.prems have "foldl extractOne_step (Some b) xs = Some r" by (simp add: extractOne_step_Some)
    from Cons.IH[OF this] False show ?thesis by auto
  qed
qed

lemma extract_iter_Nil: "extract_iter q cs = [] \<longleftrightarrow> cs = []"
  using length_extract_iter[of q cs] by (metis length_0_conv)

lemma process_extractOne_None: "process_extractOne q cs = None \<longleftrightarrow> cs = []"
proof (cases "extract_iter q cs")
  case Nil then show ?thesis using extract_iter_Nil[of q cs] by (simp add: process_extractOne_def)
next
  case (Cons x xs)
  then have ne: "cs \<noteq> []" using extract_iter_Nil[of q cs] by auto
  have "foldl extractOne_step None (x # xs) = foldl extractOne_step (Some x) xs" by (simp add: extractOne_step_None)
  with foldl_extractOne_Some[of x xs] Cons ne show ?thesis by (auto simp: process_extractOne_def)
qed

lemma process_extractOne_Some:
  assumes "process_extractOne q cs = Some (m, s, i)"
  shows "i < length cs \<and> m = cs ! i \<and> s = ratio q (cs ! i) \<and> (\<forall>j<length cs. ratio q (cs ! j) \<le> s)"
proof -
  from assms have "cs \<noteq> []" using process_extractOne_None[of q cs] by auto
  then obtain x xs where e: "extract_iter q cs = x # xs"
    using extract_iter_Nil[of q cs] by (cases "extract_iter q cs") auto
  have "foldl extractOne_step None (x # xs) = foldl extractOne_step (Some x) xs" by (simp add: extractOne_step_None)
  with assms e have f: "foldl extractOne_step (Some x) xs = Some (m, s, i)" by (simp add: process_extractOne_def)
  from foldl_extractOne_best[OF f] have mem: "(m, s, i) \<in> set (extract_iter q cs)"
    and best: "\<forall>y\<in>set (extract_iter q cs). fst (snd y) \<le> s" using e by auto
  from mem have "i < length cs \<and> m = cs ! i \<and> s = ratio q (cs ! i)" by (auto simp: set_extract_iter)
  moreover have "\<forall>j<length cs. ratio q (cs ! j) \<le> s"
  proof (intro allI impI)
    fix j assume "j < length cs"
    then have "(cs ! j, ratio q (cs ! j), j) \<in> set (extract_iter q cs)" by (auto simp: set_extract_iter)
    with best show "ratio q (cs ! j) \<le> s" by fastforce
  qed
  ultimately show ?thesis by simp
qed

lemma lcs_disjoint: "set xs \<inter> set ys = {} \<Longrightarrow> lcs_seq_similarity xs ys = 0"
  by (induction xs ys rule: lcs_seq_similarity.induct) auto

lemma ratio_disjoint:
  assumes "set q \<inter> set t = {}" and "t \<noteq> []"
  shows "ratio q t = 0"
proof -
  from assms(2) have "real (length q) + real (length t) \<noteq> 0"
    by (simp add: add_nonneg_eq_0_iff)
  then show ?thesis using assms(2)
    by (simp add: ratio_def indel_normalized_similarity_def indel_distance_def lcs_disjoint[OF assms(1)] Let_def)
qed

lemma lcs_le: "2 * lcs_seq_similarity xs ys \<le> length xs + length ys"
  by (induction xs ys rule: lcs_seq_similarity.induct) auto

lemma indel_normalized_range:
  "0 \<le> indel_normalized_similarity s t \<and> indel_normalized_similarity s t \<le> 1"
proof (cases "length s + length t = 0")
  case True then show ?thesis by (simp add: indel_normalized_similarity_def)
next
  case False
  define m where "m = real (length s) + real (length t)"
  define x where "x = real (indel_distance s t)"
  from False have pos: "0 < m" unfolding m_def
    by (cases s; cases t) (auto simp: add_nonneg_pos)
  have "indel_distance s t \<le> length s + length t"
    unfolding indel_distance_def by simp
  then have le: "x \<le> m" unfolding x_def m_def
    by (metis of_nat_add of_nat_le_iff)
  have x0: "0 \<le> x" unfolding x_def by simp
  have eq: "indel_normalized_similarity s t = 1 - x / m"
    using False by (simp add: indel_normalized_similarity_def Let_def x_def m_def)
  have "x / m \<le> 1" unfolding divide_le_eq_1_pos[OF pos] by (rule le)
  moreover have "0 \<le> x / m" using pos x0 by simp
  ultimately show ?thesis unfolding eq by linarith
qed

lemma ratio_range: "0 \<le> ratio s t \<and> ratio s t \<le> 100"
  using indel_normalized_range[of s t] by (simp add: ratio_def)

lemma round_half_even_bound: "\<bar>of_int (round_half_even y) - y\<bar> \<le> 1 / 2"
proof -
  define f where "f = \<lfloor>y\<rfloor>"
  have b: "of_int f \<le> y" "y < of_int f + 1" unfolding f_def by linarith+
  have r: "round_half_even y =
     (if y - of_int f < 1 / 2 then f else if 1 / 2 < y - of_int f then f + 1
      else if even f then f else f + 1)"
    unfolding round_half_even_def f_def Let_def by (rule refl)
  show ?thesis
  proof (cases "y - of_int f < 1 / 2")
    case True with b r show ?thesis by simp
  next
    case False
    note nlt = this
    show ?thesis
    proof (cases "1 / 2 < y - of_int f")
      case True with nlt b r show ?thesis by simp
    next
      case False
      with nlt have "y - of_int f = 1 / 2" by linarith
      then show ?thesis using r by (auto simp: abs_if)
    qed
  qed
qed

lemma py_round_1_bound: "\<bar>py_round x 1 - x\<bar> \<le> 1 / 20"
proof -
  define r where "r = real_of_int (round_half_even (x * 10))"
  have p: "py_round x 1 = r / 10" by (simp add: py_round_def r_def)
  have "\<bar>r - x * 10\<bar> \<le> 1 / 2" unfolding r_def by (rule round_half_even_bound)
  then have "- (1 / 20) \<le> r / 10 - x" "r / 10 - x \<le> 1 / 20" by linarith+
  then show ?thesis unfolding p by linarith
qed

lemma py_round_0: "py_round 0 n = 0"
  by (simp add: py_round_def round_half_even_def)

lemma take_upt_min: "take k [0..<n] = [0..<min k n]"
proof (cases "k \<le> n")
  case True then show ?thesis by (simp add: min_def)
next
  case False then show ?thesis by (simp add: min_def)
qed

lemma sort_key_const:
  assumes "\<forall>x\<in>set xs. f x = c"
  shows "sort_key f xs = xs"
proof -
  have "map f xs = replicate (length xs) c" using assms by (simp add: map_replicate_const[symmetric] cong: map_cong)
  then have "sorted (map f xs)" by (simp add: sorted_replicate)
  then show ?thesis by (rule sort_key_id_if_sorted)
qed

lemma extract_iter_zero:
  assumes "\<forall>t\<in>set cs. ratio q t = 0"
  shows "extract_iter q cs = map (\<lambda>i. (cs ! i, 0, i)) [0..<length cs]"
  by (rule nth_equalityI) (use assms in \<open>auto simp: length_extract_iter nth_extract_iter\<close>)

section \<open>The recommendation engine\<close>

lemma title_matches_Cons:
  assumes "title_matches d t = idx # rest"
  shows "idx < length d \<and> title (d ! idx) = t \<and> (\<forall>j<idx. title (d ! j) \<noteq> t)"
proof -
  from assms obtain us vs where split: "[0..<length d] = us @ idx # vs"
    and us: "\<forall>u\<in>set us. title (d ! u) \<noteq> t" and P: "title (d ! idx) = t"
    unfolding title_matches_def filter_eq_Cons_iff by blast
  have "idx \<in> set [0..<length d]" unfolding split by simp
  then have lt: "idx < length d" by simp
  have "sorted_wrt (<) (us @ idx # vs)" using sorted_wrt_upt[of 0 "length d"] split by simp
  then have vs: "\<forall>v\<in>set vs. idx < v" by (simp add: sorted_wrt_append)
  have "\<forall>j<idx. title (d ! j) \<noteq> t"
  proof (intro allI impI)
    fix j assume j: "j < idx"
    then have "j \<in> set [0..<length d]" using lt by simp
    then have "j \<in> set us \<or> j = idx \<or> j \<in> set vs" unfolding split by auto
    with j vs have "j \<in> set us" by auto
    with us show "title (d ! j) \<noteq> t" by blast
  qed
  with lt P show ?thesis by simp
qed

lemma get_recommendations_success:
  assumes "get_recommendations st q top_n min_votes min_rating = Inr (Recommendations t k recs)"
  shows "\<exists>movie_idx rest. find_movie st q 60 = Some t \<and> t \<noteq> []
           \<and> title_matches (df st) t = movie_idx # rest
           \<and> movie_idx < length (embeddings st)
           \<and> length (embeddings st) = length (df st)
           \<and> recs = map format_row (recommended_rows st movie_idx top_n min_votes min_rating)
           \<and> k = length recs"
  using assms unfolding get_recommendations_def not_found_def
  by (auto simp: Let_def split: option.splits list.splits if_splits sum.splits)

lemma length_df_work: "length (df_work d sims) = min (length d) (length sims)"
  by (simp add: df_work_def Let_def)

lemma nth_df_work:
  "i < length d \<Longrightarrow> i < length sims \<Longrightarrow>
   df_work d sims ! i = make_work_row (np_log1p (series_max (map vote_count d))) (i, d ! i, sims ! i)"
  by (simp add: df_work_def Let_def)

lemma set_df_work:
  "length sims = length d \<Longrightarrow>
   set (df_work d sims) = (\<lambda>i. make_work_row (np_log1p (series_max (map vote_count d))) (i, d ! i, sims ! i)) ` {..<length d}"
proof -
  assume l: "length sims = length d"
  have "set (df_work d sims) = {df_work d sims ! i | i. i < length d}"
    by (simp add: set_conv_nth length_df_work l)
  also have "\<dots> = {make_work_row (np_log1p (series_max (map vote_count d))) (i, d ! i, sims ! i) | i. i < length d}"
    using nth_df_work[of _ d sims] l by metis
  finally show ?thesis by auto
qed

lemma work_row_fields:
  "w_index (make_work_row lm (i, m, s)) = i"
  "w_movie (make_work_row lm (i, m, s)) = m"
  "w_similarity (make_work_row lm (i, m, s)) = s"
  "w_quality_score (make_work_row lm (i, m, s)) = quality_score lm m"
  "w_final_score (make_work_row lm (i, m, s)) = final_score s (quality_score lm m)"
  by (simp_all add: make_work_row_def Let_def)

lemma set_sort_values_desc: "set (sort_values_desc rows) = set rows"
proof -
  have "\<And>w. w_final_score w = PosInf \<or> is_finite (w_final_score w) \<or> w_final_score w = NegInf \<or> w_final_score w = NaN"
    by (case_tac "w_final_score w") auto
  then show ?thesis unfolding sort_values_desc_def by auto
qed

lemma length_sort_values_desc: "length (sort_values_desc rows) = length rows"
proof -
  have "length (filter (\<lambda>w. w_final_score w = PosInf) rows)
      + length (filter (\<lambda>w. is_finite (w_final_score w)) rows)
      + length (filter (\<lambda>w. w_final_score w = NegInf) rows)
      + length (filter (\<lambda>w. w_final_score w = NaN) rows) = length rows"
  proof (induction rows)
    case Nil show ?case by simp
  next
    case (Cons a rows)
    then show ?case by (cases "w_final_score a") auto
  qed
  then show ?thesis by (simp add: sort_values_desc_def)
qed

lemma sort_values_desc_finite:
  assumes "\<forall>w\<in>set rows. is_finite (w_final_score w)"
  shows "sort_values_desc rows = sort_key (\<lambda>w. - the_finite (w_final_score w)) rows"
proof -
  have a: "filter (\<lambda>w. is_finite (w_final_score w)) rows = rows" using assms by simp
  have b: "filter (\<lambda>w. w_final_score w = PosInf) rows = []"
          "filter (\<lambda>w. w_final_score w = NegInf) rows = []"
          "filter (\<lambda>w. w_final_score w = NaN) rows = []"
    using assms by (auto simp: filter_empty_conv)
  show ?thesis by (simp add: sort_values_desc_def a b)
qed

lemma set_nlargest: "set (nlargest n rows) \<subseteq> set rows"
  using set_take_subset[of "nat n" "sort_values_desc rows"]
  by (auto simp: nlargest_def set_sort_values_desc)

lemma length_nlargest: "int (length (nlargest n rows)) \<le> max 0 n"
proof (cases "n \<le> 0")
  case True then show ?thesis by (simp add: nlargest_def)
next
  case False
  then have eq: "nlargest n rows = take (nat n) (sort_values_desc rows)"
    by (simp add: nlargest_def)
  have "length (take (nat n) (sort_values_desc rows)) \<le> nat n" by simp
  with False have "int (length (take (nat n) (sort_values_desc rows))) \<le> n" by linarith
  then have "int (length (nlargest n rows)) \<le> n" unfolding eq .
  then show ?thesis by linarith
qed

lemma nlargest_all:
  assumes "int (length rows) \<le> n"
  shows "set (nlargest n rows) = set rows"
proof (cases "n \<le> 0")
  case True
  with assms have "length rows = 0" by linarith
  then have "rows = []" by simp
  then show ?thesis by (simp add: nlargest_def sort_values_desc_def)
next
  case False
  from assms have "length (sort_values_desc rows) \<le> nat n"
    unfolding length_sort_values_desc by linarith
  then have "take (nat n) (sort_values_desc rows) = sort_values_desc rows" by (rule take_all)
  with False show ?thesis by (simp add: nlargest_def set_sort_values_desc)
qed

lemma take_drop_sorted_key:
  assumes "sorted (map f ys)" "x \<in> set (take n ys)" "y \<in> set (drop n ys)"
  shows "f x \<le> f y"
proof -
  have "sorted (map f (take n ys) @ map f (drop n ys))"
    using assms(1) by (metis append_take_drop_id map_append)
  then show ?thesis using assms(2,3) by (auto simp: sorted_append)
qed

lemma nlargest_sorted:
  assumes "\<forall>w\<in>set rows. is_finite (w_final_score w)"
  shows "sorted_wrt (\<lambda>a b. the_finite (w_final_score b) \<le> the_finite (w_final_score a)) (nlargest n rows)"
proof -
  let ?k = "\<lambda>w. - the_finite (w_final_score w)"
  have "sorted (map ?k (sort_key ?k rows))" by simp
  then have "sorted (map ?k (take (nat n) (sort_key ?k rows)))"
    by (metis sorted_wrt_take take_map)
  then have "sorted_wrt (\<lambda>a b. ?k a \<le> ?k b) (take (nat n) (sort_key ?k rows))"
    by (simp add: sorted_map)
  then show ?thesis by (simp add: nlargest_def sort_values_desc_finite[OF assms])
qed

lemma nlargest_top:
  assumes fin: "\<forall>w\<in>set rows. is_finite (w_final_score w)"
    and x: "x \<in> set (nlargest n rows)" and y: "y \<in> set rows" "y \<notin> set (nlargest n rows)"
  shows "the_finite (w_final_score y) \<le> the_finite (w_final_score x)"
proof -
  let ?k = "\<lambda>w. - the_finite (w_final_score w)"
  let ?ys = "sort_key ?k rows"
  from x have pos: "0 < n" by (auto simp: nlargest_def split: if_splits)
  then have nl: "nlargest n rows = take (nat n) ?ys"
    by (simp add: nlargest_def sort_values_desc_finite[OF fin])
  have "set ?ys = set (take (nat n) ?ys) \<union> set (drop (nat n) ?ys)"
    by (metis append_take_drop_id set_append)
  with y nl have "y \<in> set (drop (nat n) ?ys)" by auto
  moreover have "sorted (map ?k ?ys)" by simp
  ultimately have "?k x \<le> ?k y" using x nl take_drop_sorted_key[of ?k ?ys x "nat n" y] by simp
  then show ?thesis by simp
qed

lemma length_cosine_similarity: "length (cosine_similarity x ys) = length ys"
  by (simp add: cosine_similarity_def)

lemma recommended_rows_mem:
  assumes len: "length (embeddings st) = length (df st)"
    and w: "w \<in> set (filter_rows mv mr idx (df_work (df st) (cosine_similarity (embeddings st ! idx) (embeddings st))))"
  shows "w_index w < length (df st)
       \<and> w = make_work_row (np_log1p (series_max (map vote_count (df st))))
               (w_index w, df st ! w_index w, cosine (embeddings st ! idx) (embeddings st ! w_index w))
       \<and> mv \<le> int (vote_count (df st ! w_index w))
       \<and> mr \<le> vote_average (df st ! w_index w)
       \<and> w_index w \<noteq> idx"
proof -
  let ?sims = "cosine_similarity (embeddings st ! idx) (embeddings st)"
  let ?lm = "np_log1p (series_max (map vote_count (df st)))"
  have ls: "length ?sims = length (df st)" by (simp add: length_cosine_similarity len)
  from w have win: "w \<in> set (df_work (df st) ?sims)"
    and f: "mv \<le> int (vote_count (w_movie w))" "mr \<le> vote_average (w_movie w)" "w_index w \<noteq> idx"
    by (auto simp: filter_rows_def)
  from win obtain i where i: "i < length (df st)" "w = make_work_row ?lm (i, df st ! i, ?sims ! i)"
    unfolding set_df_work[OF ls] by auto
  have s: "?sims ! i = cosine (embeddings st ! idx) (embeddings st ! i)"
    using i(1) len by (simp add: cosine_similarity_def)
  from i s f show ?thesis by (simp add: work_row_fields)
qed

lemma recommended_rows_subset:
  "set (recommended_rows st idx n mv mr)
     \<subseteq> set (filter_rows mv mr idx (df_work (df st) (cosine_similarity (embeddings st ! idx) (embeddings st))))"
  unfolding recommended_rows_def Let_def by (rule set_nlargest)

lemma format_row_fields:
  "r_title (format_row w) = title (w_movie w)"
  "r_rating (format_row w) = py_round (vote_average (w_movie w)) 1"
  "r_votes (format_row w) = vote_count (w_movie w)"
  "r_similarity (format_row w) = py_round (w_similarity w) 3"
  "r_score (format_row w) = np_round (w_final_score w) 3"
  by (simp_all add: format_row_def)

lemma filter_rows_index_iff:
  assumes len: "length (embeddings st) = length (df st)"
  shows "j \<in> w_index ` set (filter_rows mv mr idx (df_work (df st) (cosine_similarity (embeddings st ! idx) (embeddings st))))
     \<longleftrightarrow> j < length (df st) \<and> j \<noteq> idx \<and> mv \<le> int (vote_count (df st ! j)) \<and> mr \<le> vote_average (df st ! j)"
proof
  assume "j \<in> w_index ` set (filter_rows mv mr idx (df_work (df st) (cosine_similarity (embeddings st ! idx) (embeddings st))))"
  then obtain w where w: "w \<in> set (filter_rows mv mr idx (df_work (df st) (cosine_similarity (embeddings st ! idx) (embeddings st))))"
    and j: "j = w_index w" by auto
  from recommended_rows_mem[OF len w] j
  show "j < length (df st) \<and> j \<noteq> idx \<and> mv \<le> int (vote_count (df st ! j)) \<and> mr \<le> vote_average (df st ! j)"
    by simp
next
  let ?sims = "cosine_similarity (embeddings st ! idx) (embeddings st)"
  let ?lm = "np_log1p (series_max (map vote_count (df st)))"
  let ?w = "make_work_row ?lm (j, df st ! j, ?sims ! j)"
  assume a: "j < length (df st) \<and> j \<noteq> idx \<and> mv \<le> int (vote_count (df st ! j)) \<and> mr \<le> vote_average (df st ! j)"
  have ls: "length ?sims = length (df st)" by (simp add: length_cosine_similarity len)
  from a have "?w \<in> set (df_work (df st) ?sims)" unfolding set_df_work[OF ls] by blast
  with a have "?w \<in> set (filter_rows mv mr idx (df_work (df st) ?sims))"
    by (simp add: filter_rows_def work_row_fields)
  moreover have "w_index ?w = j" by (simp add: work_row_fields)
  ultimately show "j \<in> w_index ` set (filter_rows mv mr idx (df_work (df st) ?sims))"
    by (metis imageI)
qed

lemma np_mul_commute: "np_mul a b = np_mul b a"
  by (cases a; cases b) (simp_all add: mult.commute)

lemma series_max_Max: "xs \<noteq> [] \<Longrightarrow> series_max xs = Finite (real (Max (set xs)))"
  by (cases xs) (simp_all add: Max.set_eq_fold[symmetric])

lemma quality_score_spec_order:
  "quality_score lm m =
     np_add (np_mul (Finite 0.7) (np_div (Finite (vote_average m)) (Finite 10)))
            (np_mul (Finite 0.3) (np_div (np_log1p (Finite (real (vote_count m)))) lm))"
  unfolding quality_score_def by (simp only: np_mul_commute[of _ "Finite 0.7"] np_mul_commute[of _ "Finite 0.3"])

lemma final_score_spec_order:
  "final_score sim ql = np_add (np_mul (Finite 0.6) (Finite sim)) (np_mul (Finite 0.4) ql)"
  unfolding final_score_def by (simp only: np_mul_commute[of _ "Finite 0.6"] np_mul_commute[of _ "Finite 0.4"])

lemma quality_score_finite:
  assumes "0 < M"
  shows "quality_score (np_log1p (Finite (real M))) m = Finite (spec_quality (vote_average m) (vote_count m) M)"
proof -
  have "ln (1 + real M) \<noteq> 0" using assms by simp
  then show ?thesis by (simp add: quality_score_def spec_quality_def)
qed

lemma final_score_finite:
  "final_score sim (Finite ql) = Finite (spec_final_score sim ql)"
  by (simp add: final_score_def spec_final_score_def)

lemma dot_scale: "dot (map (\<lambda>a. a / n) x) (map (\<lambda>b. b / m) y) = dot x y / (n * m)"
  unfolding dot_def
proof (induction x arbitrary: y)
  case Nil show ?case by simp
next
  case (Cons a x)
  show ?case
  proof (cases y)
    case Nil then show ?thesis by simp
  next
    case (Cons b y')
    with Cons.IH[of y'] show ?thesis by (simp add: add_divide_distrib)
  qed
qed

lemma cosine_formula:
  "l2_norm u \<noteq> 0 \<Longrightarrow> l2_norm v \<noteq> 0 \<Longrightarrow> cosine u v = dot u v / (l2_norm u * l2_norm v)"
  by (simp add: cosine_def normalize_row_def Let_def dot_scale)

lemma l2_norm_zero: "l2_norm v = 0 \<longleftrightarrow> (\<forall>x\<in>set v. x = 0)"
proof -
  have "l2_norm v = 0 \<longleftrightarrow> (\<Sum>x\<leftarrow>v. x * x) = 0" by (simp add: l2_norm_def)
  also have "\<dots> \<longleftrightarrow> (\<forall>y\<in>set (map (\<lambda>x. x * x) v). y = 0)"
    by (rule sum_list_nonneg_eq_0_iff) auto
  also have "\<dots> \<longleftrightarrow> (\<forall>x\<in>set v. x = 0)" by simp
  finally show ?thesis .
qed

lemma dot_zero_left: "\<forall>a\<in>set u. a = 0 \<Longrightarrow> dot u v = 0"
proof -
  assume z: "\<forall>a\<in>set u. a = 0"
  have "map (\<lambda>(a, b). a * b) (zip u v) = map (\<lambda>p. 0) (zip u v)"
    by (rule map_cong[OF refl]) (use z in \<open>auto dest: set_zip_leftD\<close>)
  then have "dot u v = sum_list (map (\<lambda>p. 0) (zip u v))" unfolding dot_def by (rule arg_cong)
  also have "\<dots> = 0" by simp
  finally show ?thesis .
qed

lemma dot_zero_right: "\<forall>b\<in>set v. b = 0 \<Longrightarrow> dot u v = 0"
proof -
  assume z: "\<forall>b\<in>set v. b = 0"
  have "map (\<lambda>(a, b). a * b) (zip u v) = map (\<lambda>p. 0) (zip u v)"
    by (rule map_cong[OF refl]) (use z in \<open>auto dest: set_zip_rightD\<close>)
  then have "dot u v = sum_list (map (\<lambda>p. 0) (zip u v))" unfolding dot_def by (rule arg_cong)
  also have "\<dots> = 0" by simp
  finally show ?thesis .
qed

lemma normalize_row_zero: "l2_norm v = 0 \<Longrightarrow> normalize_row v = v"
  by (simp add: normalize_row_def Let_def)

lemma cosine_cases:
  "cosine x y =
     (if l2_norm x = 0 \<or> l2_norm y = 0 then 0 else dot x y / (l2_norm x * l2_norm y))"
proof (cases "l2_norm x = 0")
  case True
  then have "\<forall>a\<in>set (normalize_row x). a = 0" by (simp add: normalize_row_zero l2_norm_zero)
  then have "cosine x y = 0" unfolding cosine_def by (rule dot_zero_left)
  with True show ?thesis by simp
next
  case False
  show ?thesis
  proof (cases "l2_norm y = 0")
    case True
    then have "\<forall>b\<in>set (normalize_row y). b = 0" by (simp add: normalize_row_zero l2_norm_zero)
    then have "cosine x y = 0" unfolding cosine_def by (rule dot_zero_right)
    with True show ?thesis by simp
  next
    case y: False
    from cosine_formula[OF False y] False y show ?thesis by simp
  qed
qed

lemma sqrt_25: "sqrt 25 = 5"
  by (rule real_sqrt_unique) simp_all

section \<open>Ranked matches by catalog position\<close>

lemma insort_key_map: "insort_key f (g x) (map g ys) = map g (insort_key (\<lambda>x. f (g x)) x ys)"
  by (induction ys) simp_all

lemma sort_key_map: "sort_key f (map g xs) = map g (sort_key (\<lambda>x. f (g x)) xs)"
  by (induction xs) (simp_all add: insort_key_map)

lemma extract_iter_map:
  "extract_iter q cs = map (\<lambda>i. (cs ! i, ratio q (cs ! i), i)) [0..<length cs]"
  by (rule nth_equalityI) (simp_all add: length_extract_iter nth_extract_iter)

lemma process_extract_indices:
  "process_extract q cs limit =
     map (\<lambda>i. (cs ! i, ratio q (cs ! i), i))
       (take (nat limit) (sort_key (\<lambda>i. - ratio q (cs ! i)) [0..<length cs]))"
  unfolding process_extract_def extract_iter_map sort_key_map take_map
  by simp

lemma search_loop_IndexError:
  "\<exists>r\<in>set ms. length d \<le> snd (snd r) \<Longrightarrow> search_loop d ms acc = Inl IndexError"
  by (induction d ms acc rule: search_loop.induct) auto

lemma search_movie_indices:
  fixes st q limit
  defines "idxs \<equiv> take (nat limit)
                     (sort_key (\<lambda>i. - ratio q (movie_titles st ! i)) [0..<length (movie_titles st)])"
  shows "search_movie st q limit =
     (if \<forall>i\<in>set idxs. i < length (df st)
      then Inr (map (\<lambda>i. \<lparr>s_title = title (df st ! i),
                           s_match_score = py_round (ratio q (movie_titles st ! i)) 1,
                           s_rating = py_round (vote_average (df st ! i)) 1,
                           s_votes = vote_count (df st ! i)\<rparr>) idxs)
      else Inl IndexError)"
proof -
  let ?g = "\<lambda>i. (movie_titles st ! i, ratio q (movie_titles st ! i), i)"
  have pe: "process_extract q (movie_titles st) limit = map ?g idxs"
    unfolding idxs_def by (rule process_extract_indices)
  show ?thesis
  proof (cases "\<forall>i\<in>set idxs. i < length (df st)")
    case True
    then have "\<forall>r\<in>set (map ?g idxs). snd (snd r) < length (df st)" by simp
    from search_loop_map[OF this, of "[]"] True show ?thesis
      by (simp add: search_movie_def pe comp_def make_search_result_def)
  next
    case False
    then have "\<exists>r\<in>set (map ?g idxs). length (df st) \<le> snd (snd r)" by (simp add: not_less)
    from search_loop_IndexError[OF this, of "[]"] False show ?thesis
      by (simp add: search_movie_def pe)
  qed
qed


section \<open>Runs on the example catalogs\<close>

lemmas resolver_defs =
  find_movie_def process_extractOne_def extract_iter_def extractOne_step_def ratio_def
  indel_normalized_similarity_def indel_distance_def process_extract_def search_movie_def
  make_search_result_def py_round_def round_half_even_def

lemmas engine_defs =
  get_recommendations_def title_matches_def format_row_def recommended_rows_def
  cosine_similarity_def cosine_def normalize_row_def l2_norm_def dot_def df_work_def
  make_work_row_def quality_score_def final_score_def filter_rows_def nlargest_def
  sort_values_desc_def not_found_def

lemmas example_defs =
  ex_store_def dup_store_def zero_store_def spaced_store_def scaled_store_def bad_store_def
  ex_movie_def

lemma ex_store_heat:
  "get_recommendations ex_store ''heat'' 2 0 0 =
     Inr (Recommendations ''Heat'' 2
       [\<lparr>r_title = ''Heat 2'', r_rating = 68 / 10, r_votes = 100, r_similarity = 8 / 10,
          r_score = Finite (792 / 1000)\<rparr>,
        \<lparr>r_title = ''Up'', r_rating = 79 / 10, r_votes = 100, r_similarity = 6 / 10,
          r_score = Finite (701 / 1000)\<rparr>])"
  by (simp add: engine_defs resolver_defs example_defs upt_rec)

lemma scaled_store_heat:
  "get_recommendations scaled_store ''heat'' 2 0 0 =
     Inr (Recommendations ''Heat'' 2
       [\<lparr>r_title = ''Heat 2'', r_rating = 68 / 10, r_votes = 100, r_similarity = 8 / 10,
          r_score = Finite (792 / 1000)\<rparr>,
        \<lparr>r_title = ''Up'', r_rating = 79 / 10, r_votes = 100, r_similarity = 6 / 10,
          r_score = Finite (701 / 1000)\<rparr>])"
  by (simp add: engine_defs resolver_defs example_defs scaled_store_def sqrt_25 upt_rec)

lemma ex_store_min_rating:
  "get_recommendations ex_store ''heat'' 10 0 (601 / 100) =
     Inr (Recommendations ''Heat'' 3
       [\<lparr>r_title = ''Heat 2'', r_rating = 68 / 10, r_votes = 100, r_similarity = 8 / 10,
          r_score = Finite (792 / 1000)\<rparr>,
        \<lparr>r_title = ''Up'', r_rating = 79 / 10, r_votes = 100, r_similarity = 6 / 10,
          r_score = Finite (701 / 1000)\<rparr>,
        \<lparr>r_title = ''Big'', r_rating = 6, r_votes = 0, r_similarity = 0,
          r_score = Finite (169 / 1000)\<rparr>])"
  by (simp add: engine_defs resolver_defs example_defs upt_rec)

lemma dup_store_heat:
  "get_recommendations dup_store ''Heat'' 10 0 0 =
     Inr (Recommendations ''Heat'' 2
       [\<lparr>r_title = ''Heat'', r_rating = 75 / 10, r_votes = 100, r_similarity = 8 / 10,
          r_score = Finite (81 / 100)\<rparr>,
        \<lparr>r_title = ''Up'', r_rating = 79 / 10, r_votes = 100, r_similarity = 0,
          r_score = Finite (341 / 1000)\<rparr>])"
  by (simp add: engine_defs resolver_defs example_defs upt_rec)

lemma ex_store_empty_query:
  "search_movie ex_store [] 3 =
     Inr [\<lparr>s_title = ''Heat'', s_match_score = 0, s_rating = 82 / 10, s_votes = 100\<rparr>,
          \<lparr>s_title = ''Heat 2'', s_match_score = 0, s_rating = 68 / 10, s_votes = 100\<rparr>,
          \<lparr>s_title = ''Up'', s_match_score = 0, s_rating = 79 / 10, s_votes = 100\<rparr>]"
  by (simp add: resolver_defs example_defs)

lemma ex_store_extractOne_60:
  "process_extractOne ''Heaxyz'' (movie_titles ex_store) = Some (''Heat'', 60, 0)"
  by (simp add: resolver_defs example_defs)

lemma ex_store_extractOne_below:
  "process_extractOne ''Hexyz'' (movie_titles ex_store) = Some (''Heat'', 400 / 9, 0)"
  by (simp add: resolver_defs example_defs)


section \<open>Blended score\<close>

text \<open>
  Claim C1 (blended score).  A successful call of \<open>get_recommendations\<close> anchors on a row
  \<open>movie_idx\<close> bearing the resolved title and builds one working row per catalog row.  For
  every catalog row \<open>i\<close> the working row carries the cosine similarity between the anchor's
  embedding and the embedding of row \<open>i\<close>, that is their dot product divided by the product
  of their Euclidean norms (and 0 when one of the two norms is 0), the quality score
  \<open>0.7 * (rating / 10) + 0.3 * (log1p votes / log1p max_votes)\<close> and the final score
  \<open>0.6 * similarity + 0.4 * quality\<close>, computed in numpy's arithmetic; when the largest vote
  count of the catalog is positive both are the finite numbers \<open>spec_quality\<close> and
  \<open>spec_final_score\<close> of the specification.  The returned list is the formatted
  \<open>nlargest top_n\<close> selection of the filtered rows: it is sorted by final score descending
  and no filtered row left out has a higher final score than a selected one.
\<close>

theorem blended_score:
  assumes ok: "get_recommendations st q top_n min_votes min_rating = Inr (Recommendations t k recs)"
  shows "\<exists>movie_idx work top.
            movie_idx < length (df st) \<and> title (df st ! movie_idx) = t
          \<and> work = df_work (df st) (cosine_similarity (embeddings st ! movie_idx) (embeddings st))
          \<and> length work = length (df st)
          \<and> top = nlargest top_n (filter_rows min_votes min_rating movie_idx work)
          \<and> recs = map format_row top
          \<and> (\<forall>i<length (df st).
                 w_index (work ! i) = i
               \<and> w_movie (work ! i) = df st ! i
               \<and> w_similarity (work ! i) =
                   (if l2_norm (embeddings st ! movie_idx) = 0 \<or> l2_norm (embeddings st ! i) = 0
                    then 0
                    else dot (embeddings st ! movie_idx) (embeddings st ! i)
                           / (l2_norm (embeddings st ! movie_idx) * l2_norm (embeddings st ! i)))
               \<and> w_quality_score (work ! i) =
                   np_add (np_mul (Finite 0.7) (np_div (Finite (vote_average (df st ! i))) (Finite 10)))
                          (np_mul (Finite 0.3)
                             (np_div (np_log1p (Finite (real (vote_count (df st ! i)))))
                                     (np_log1p (series_max (map vote_count (df st))))))
               \<and> w_final_score (work ! i) =
                   np_add (np_mul (Finite 0.6) (Finite (w_similarity (work ! i))))
                          (np_mul (Finite 0.4) (w_quality_score (work ! i)))
               \<and> (0 < Max (set (map vote_count (df st))) \<longrightarrow>
                    w_quality_score (work ! i) =
                      Finite (spec_quality (vote_average (df st ! i)) (vote_count (df st ! i))
                                (Max (set (map vote_count (df st)))))
                  \<and> w_final_score (work ! i) =
                      Finite (spec_final_score (w_similarity (work ! i))
                                (spec_quality (vote_average (df st ! i)) (vote_count (df st ! i))
                                   (Max (set (map vote_count (df st))))))))
          \<and> (0 < Max (set (map vote_count (df st))) \<longrightarrow>
                 sorted_wrt (\<lambda>a b. the_finite (w_final_score b) \<le> the_finite (w_final_score a)) top
               \<and> (\<forall>x\<in>set top. \<forall>y\<in>set (filter_rows min_votes min_rating movie_idx work).
                     y \<notin> set top \<longrightarrow> the_finite (w_final_score y) \<le> the_finite (w_final_score x)))"
proof -
  from get_recommendations_success[OF ok] obtain movie_idx rest where
    tm: "title_matches (df st) t = movie_idx # rest"
    and len: "length (embeddings st) = length (df st)"
    and recs: "recs = map format_row (recommended_rows st movie_idx top_n min_votes min_rating)"
    by blast
  let ?sims = "cosine_similarity (embeddings st ! movie_idx) (embeddings st)"
  let ?lm = "np_log1p (series_max (map vote_count (df st)))"
  let ?work = "df_work (df st) ?sims"
  let ?cands = "filter_rows min_votes min_rating movie_idx ?work"
  let ?top = "nlargest top_n ?cands"
  let ?M = "Max (set (map vote_count (df st)))"
  from title_matches_Cons[OF tm] have lt: "movie_idx < length (df st)"
    and ti: "title (df st ! movie_idx) = t" by simp_all
  from lt have ne: "map vote_count (df st) \<noteq> []" by auto
  have ls: "length ?sims = length (df st)" by (simp add: length_cosine_similarity len)
  have lw: "length ?work = length (df st)" by (simp add: length_df_work ls)
  have r: "recs = map format_row ?top" using recs by (simp add: recommended_rows_def Let_def)
  have row: "\<And>i. i < length (df st) \<Longrightarrow>
      ?work ! i = make_work_row ?lm (i, df st ! i, cosine (embeddings st ! movie_idx) (embeddings st ! i))"
  proof -
    fix i assume i: "i < length (df st)"
    then have "?sims ! i = cosine (embeddings st ! movie_idx) (embeddings st ! i)"
      using len by (simp add: cosine_similarity_def)
    with nth_df_work[of i "df st" ?sims] i ls show
      "?work ! i = make_work_row ?lm (i, df st ! i, cosine (embeddings st ! movie_idx) (embeddings st ! i))"
      by simp
  qed
  have lmM: "?lm = np_log1p (Finite (real ?M))" by (simp only: series_max_Max[OF ne])
  have rows0: "\<forall>i<length (df st).
                 w_index (?work ! i) = i
               \<and> w_movie (?work ! i) = df st ! i
               \<and> w_similarity (?work ! i) = cosine (embeddings st ! movie_idx) (embeddings st ! i)
               \<and> w_quality_score (?work ! i) =
                   np_add (np_mul (Finite 0.7) (np_div (Finite (vote_average (df st ! i))) (Finite 10)))
                          (np_mul (Finite 0.3)
                             (np_div (np_log1p (Finite (real (vote_count (df st ! i))))) ?lm))
               \<and> w_final_score (?work ! i) =
                   np_add (np_mul (Finite 0.6) (Finite (w_similarity (?work ! i))))
                          (np_mul (Finite 0.4) (w_quality_score (?work ! i)))
               \<and> (0 < ?M \<longrightarrow>
                    w_quality_score (?work ! i) =
                      Finite (spec_quality (vote_average (df st ! i)) (vote_count (df st ! i)) ?M)
                  \<and> w_final_score (?work ! i) =
                      Finite (spec_final_score (w_similarity (?work ! i))
                                (spec_quality (vote_average (df st ! i)) (vote_count (df st ! i)) ?M)))"
  proof (intro allI impI)
    fix i assume i: "i < length (df st)"
    have fin: "0 < ?M \<longrightarrow>
          quality_score ?lm (df st ! i) = Finite (spec_quality (vote_average (df st ! i)) (vote_count (df st ! i)) ?M)"
      unfolding lmM using quality_score_finite by blast
    show "w_index (?work ! i) = i
               \<and> w_movie (?work ! i) = df st ! i
               \<and> w_similarity (?work ! i) = cosine (embeddings st ! movie_idx) (embeddings st ! i)
               \<and> w_quality_score (?work ! i) =
                   np_add (np_mul (Finite 0.7) (np_div (Finite (vote_average (df st ! i))) (Finite 10)))
                          (np_mul (Finite 0.3)
                             (np_div (np_log1p (Finite (real (vote_count (df st ! i))))) ?lm))
               \<and> w_final_score (?work ! i) =
                   np_add (np_mul (Finite 0.6) (Finite (w_similarity (?work ! i))))
                          (np_mul (Finite 0.4) (w_quality_score (?work ! i)))
               \<and> (0 < ?M \<longrightarrow>
                    w_quality_score (?work ! i) =
                      Finite (spec_quality (vote_average (df st ! i)) (vote_count (df st ! i)) ?M)
                  \<and> w_final_score (?work ! i) =
                      Finite (spec_final_score (w_similarity (?work ! i))
                                (spec_quality (vote_average (df st ! i)) (vote_count (df st ! i)) ?M)))"
      unfolding row[OF i] work_row_fields
      using fin quality_score_spec_order[of ?lm "df st ! i"]
        final_score_spec_order[of "cosine (embeddings st ! movie_idx) (embeddings st ! i)" "quality_score ?lm (df st ! i)"]
        final_score_finite
      by (metis (no_types, lifting))
  qed
  have rows: "\<forall>i<length (df st).
                 w_index (?work ! i) = i
               \<and> w_movie (?work ! i) = df st ! i
               \<and> w_similarity (?work ! i) =
                   (if l2_norm (embeddings st ! movie_idx) = 0 \<or> l2_norm (embeddings st ! i) = 0
                    then 0
                    else dot (embeddings st ! movie_idx) (embeddings st ! i)
                           / (l2_norm (embeddings st ! movie_idx) * l2_norm (embeddings st ! i)))
               \<and> w_quality_score (?work ! i) =
                   np_add (np_mul (Finite 0.7) (np_div (Finite (vote_average (df st ! i))) (Finite 10)))
                          (np_mul (Finite 0.3)
                             (np_div (np_log1p (Finite (real (vote_count (df st ! i))))) ?lm))
               \<and> w_final_score (?work ! i) =
                   np_add (np_mul (Finite 0.6) (Finite (w_similarity (?work ! i))))
                          (np_mul (Finite 0.4) (w_quality_score (?work ! i)))
               \<and> (0 < ?M \<longrightarrow>
                    w_quality_score (?work ! i) =
                      Finite (spec_quality (vote_average (df st ! i)) (vote_count (df st ! i)) ?M)
                  \<and> w_final_score (?work ! i) =
                      Finite (spec_final_score (w_similarity (?work ! i))
                                (spec_quality (vote_average (df st ! i)) (vote_count (df st ! i)) ?M)))"
  proof (intro allI impI)
    fix i assume i: "i < length (df st)"
    show "w_index (?work ! i) = i
               \<and> w_movie (?work ! i) = df st ! i
               \<and> w_similarity (?work ! i) =
                   (if l2_norm (embeddings st ! movie_idx) = 0 \<or> l2_norm (embeddings st ! i) = 0
                    then 0
                    else dot (embeddings st ! movie_idx) (embeddings st ! i)
                           / (l2_norm (embeddings st ! movie_idx) * l2_norm (embeddings st ! i)))
               \<and> w_quality_score (?work ! i) =
                   np_add (np_mul (Finite 0.7) (np_div (Finite (vote_average (df st ! i))) (Finite 10)))
                          (np_mul (Finite 0.3)
                             (np_div (np_log1p (Finite (real (vote_count (df st ! i))))) ?lm))
               \<and> w_final_score (?work ! i) =
                   np_add (np_mul (Finite 0.6) (Finite (w_similarity (?work ! i))))
                          (np_mul (Finite 0.4) (w_quality_score (?work ! i)))
               \<and> (0 < ?M \<longrightarrow>
                    w_quality_score (?work ! i) =
                      Finite (spec_quality (vote_average (df st ! i)) (vote_count (df st ! i)) ?M)
                  \<and> w_final_score (?work ! i) =
                      Finite (spec_final_score (w_similarity (?work ! i))
                                (spec_quality (vote_average (df st ! i)) (vote_count (df st ! i)) ?M)))"
      by (rule rows0[THEN spec, THEN mp, OF i, unfolded cosine_cases])
  qed
  have order: "0 < ?M \<longrightarrow>
                 sorted_wrt (\<lambda>a b. the_finite (w_final_score b) \<le> the_finite (w_final_score a)) ?top
               \<and> (\<forall>x\<in>set ?top. \<forall>y\<in>set ?cands.
                     y \<notin> set ?top \<longrightarrow> the_finite (w_final_score y) \<le> the_finite (w_final_score x))"
  proof (intro impI)
    assume M: "0 < ?M"
    have fin: "\<forall>w\<in>set ?cands. is_finite (w_final_score w)"
    proof
      fix w assume w: "w \<in> set ?cands"
      from recommended_rows_mem[OF len w] obtain i sim where
        "w = make_work_row ?lm (i, df st ! i, sim)" by blast
      then have "w_final_score w = final_score sim (quality_score ?lm (df st ! i))"
        by (simp add: work_row_fields)
      also have "\<dots> = Finite (spec_final_score sim (spec_quality (vote_average (df st ! i)) (vote_count (df st ! i)) ?M))"
        unfolding lmM quality_score_finite[OF M] final_score_finite by (rule refl)
      finally show "is_finite (w_final_score w)" by simp
    qed
    from nlargest_sorted[OF fin] nlargest_top[OF fin]
    show "sorted_wrt (\<lambda>a b. the_finite (w_final_score b) \<le> the_finite (w_final_score a)) ?top
               \<and> (\<forall>x\<in>set ?top. \<forall>y\<in>set ?cands.
                     y \<notin> set ?top \<longrightarrow> the_finite (w_final_score y) \<le> the_finite (w_final_score x))"
      by blast
  qed
  show ?thesis
    apply (rule exI[where x = movie_idx])
    apply (rule exI[where x = ?work])
    apply (rule exI[where x = ?top])
    apply (intro conjI)
           apply (rule lt)
          apply (rule ti)
         apply (rule refl)
        apply (rule lw)
       apply (rule refl)
      apply (rule r)
     apply (rule rows)
    apply (rule order)
    done
qed

text \<open>
  The statement at the catalog \<open>scaled_store\<close>, whose embeddings have the norms 2 and 5,
  and the query \<open>''heat''\<close>: the row of \<open>''Heat 2''\<close> has the similarity
  \<open>8 / (2 * 5)\<close> to the anchor and the quality and final score of the formulas, and the two
  returned rows come in descending order of final score.
\<close>

theorem blended_score_witness:
  "get_recommendations scaled_store ''heat'' 2 0 0 =
     Inr (Recommendations ''Heat'' 2
       [\<lparr>r_title = ''Heat 2'', r_rating = 68 / 10, r_votes = 100, r_similarity = 8 / 10,
          r_score = Finite (792 / 1000)\<rparr>,
        \<lparr>r_title = ''Up'', r_rating = 79 / 10, r_votes = 100, r_similarity = 6 / 10,
          r_score = Finite (701 / 1000)\<rparr>])
   \<and> 0 < Max (set (map vote_count (df scaled_store)))
   \<and> embeddings scaled_store ! 0 = [2, 0] \<and> embeddings scaled_store ! 1 = [4, 3]
   \<and> l2_norm [2, 0] = 2 \<and> l2_norm [4, 3] = 5 \<and> dot [2, 0] [4, 3] = 8
   \<and> (\<exists>(work :: work_row list) (top :: work_row list).
         length work = length (df scaled_store)
       \<and> w_similarity (work ! 1) = 8 / (2 * 5)
       \<and> w_quality_score (work ! 1) = Finite (spec_quality (684 / 100) 100 100)
       \<and> w_final_score (work ! 1) =
           Finite (spec_final_score (w_similarity (work ! 1)) (spec_quality (684 / 100) 100 100))
       \<and> map format_row top =
           [\<lparr>r_title = ''Heat 2'', r_rating = 68 / 10, r_votes = 100, r_similarity = 8 / 10,
              r_score = Finite (792 / 1000)\<rparr>,
            \<lparr>r_title = ''Up'', r_rating = 79 / 10, r_votes = 100, r_similarity = 6 / 10,
              r_score = Finite (701 / 1000)\<rparr>]
       \<and> sorted_wrt (\<lambda>a b. the_finite (w_final_score b) \<le> the_finite (w_final_score a)) top)"
proof -
  have M: "Max (set (map vote_count (df scaled_store))) = 100" by (simp add: scaled_store_def ex_movie_def)
  have pos: "0 < Max (set (map vote_count (df scaled_store)))" unfolding M by simp
  have l: "(1::nat) < length (df scaled_store)" by (simp add: scaled_store_def)
  have l4: "length (df scaled_store) = 4" by (simp add: scaled_store_def)
  have row: "vote_average (df scaled_store ! 1) = 684 / 100" "vote_count (df scaled_store ! 1) = 100"
    by (simp_all add: scaled_store_def ex_movie_def)
  have e0: "embeddings scaled_store ! 0 = [2, 0]" and e1: "embeddings scaled_store ! 1 = [4, 3]"
    by (simp_all add: scaled_store_def)
  have n0: "l2_norm [2, 0] = 2" and n1: "l2_norm [4, 3] = 5" and d01: "dot [2, 0] [4, 3] = 8"
    by (simp_all add: l2_norm_def dot_def sqrt_25)
  have others: "title (df scaled_store ! 1) \<noteq> ''Heat''" "title (df scaled_store ! 2) \<noteq> ''Heat''"
    "title (df scaled_store ! 3) \<noteq> ''Heat''"
    by (simp_all add: scaled_store_def ex_movie_def)
  have sim: "(if l2_norm [2, 0] = 0 \<or> l2_norm [4, 3] = 0 then 0
              else dot [2, 0] [4, 3] / (l2_norm [2, 0] * l2_norm [4, 3])) = 8 / (2 * 5)"
    unfolding n0 n1 d01 by simp
  from blended_score[OF scaled_store_heat] have "\<exists>(work :: work_row list) (top :: work_row list).
         length work = length (df scaled_store)
       \<and> w_similarity (work ! 1) = 8 / (2 * 5)
       \<and> w_quality_score (work ! 1) = Finite (spec_quality (684 / 100) 100 100)
       \<and> w_final_score (work ! 1) =
           Finite (spec_final_score (w_similarity (work ! 1)) (spec_quality (684 / 100) 100 100))
       \<and> map format_row top =
           [\<lparr>r_title = ''Heat 2'', r_rating = 68 / 10, r_votes = 100, r_similarity = 8 / 10,
              r_score = Finite (792 / 1000)\<rparr>,
            \<lparr>r_title = ''Up'', r_rating = 79 / 10, r_votes = 100, r_similarity = 6 / 10,
              r_score = Finite (701 / 1000)\<rparr>]
       \<and> sorted_wrt (\<lambda>a b. the_finite (w_final_score b) \<le> the_finite (w_final_score a)) top"
  proof (elim exE conjE, goal_cases)
    case (1 movie_idx work top)
    note lw = 1(4) and r = 1(6) and rows = 1(7) and order = 1(8)
    from 1(1) have "movie_idx = 0 \<or> movie_idx = 1 \<or> movie_idx = 2 \<or> movie_idx = 3"
      unfolding l4 by linarith
    with 1(2) others have m0: "movie_idx = 0" by blast
    note R = rows[THEN spec, THEN mp, OF l]
    note S = R[THEN conjunct2, THEN conjunct2, THEN conjunct1, unfolded m0 e0 e1 sim]
    note Q = R[THEN conjunct2, THEN conjunct2, THEN conjunct2, THEN conjunct2, THEN conjunct2,
               THEN mp, OF pos]
    note q = Q[THEN conjunct1, unfolded row M]
    note f = Q[THEN conjunct2, unfolded row M]
    note s = order[THEN mp, OF pos, THEN conjunct1]
    show ?case
      apply (rule exI)
      apply (rule exI)
      apply (intro conjI)
           apply (rule lw)
          apply (rule S)
         apply (rule q)
        apply (rule f)
       apply (rule r[symmetric])
      apply (rule s)
      done
  qed
  with scaled_store_heat pos e0 e1 n0 n1 d01 show ?thesis by (intro conjI)
qed

section \<open>Filter correctness\<close>

text \<open>
  Claim C2 (filter correctness), as the code has it.  Every entry of a successful recommendation
  list is the formatted image of a catalog row whose vote count is at least \<open>min_votes\<close>
  and whose unrounded rating is at least \<open>min_rating\<close>.  The returned vote count is the
  row's own, so it satisfies the bound as returned.  The returned rating is the row's rating
  rounded to one decimal, so it is only guaranteed to be at least \<open>min_rating - 0.05\<close>.
\<close>

theorem filter_correctness:
  assumes ok: "get_recommendations st q top_n min_votes min_rating = Inr (Recommendations t k recs)"
    and r: "r \<in> set recs"
  shows "\<exists>i<length (df st).
            r_title r = title (df st ! i)
          \<and> r_votes r = vote_count (df st ! i)
          \<and> r_rating r = py_round (vote_average (df st ! i)) 1
          \<and> min_votes \<le> int (vote_count (df st ! i))
          \<and> min_rating \<le> vote_average (df st ! i)
          \<and> min_votes \<le> int (r_votes r)
          \<and> min_rating - 1 / 20 \<le> r_rating r"
proof -
  from get_recommendations_success[OF ok] obtain movie_idx where
    len: "length (embeddings st) = length (df st)"
    and recs: "recs = map format_row (recommended_rows st movie_idx top_n min_votes min_rating)"
    by blast
  from r recs obtain w where w: "w \<in> set (recommended_rows st movie_idx top_n min_votes min_rating)"
    and rw: "r = format_row w" by auto
  from w recommended_rows_subset have "w \<in> set (filter_rows min_votes min_rating movie_idx
      (df_work (df st) (cosine_similarity (embeddings st ! movie_idx) (embeddings st))))" by blast
  from recommended_rows_mem[OF len this] have
    i: "w_index w < length (df st)" and
    m: "w_movie w = df st ! w_index w" and
    f: "min_votes \<le> int (vote_count (df st ! w_index w))" "min_rating \<le> vote_average (df st ! w_index w)"
    by (metis work_row_fields(2))+
  have "\<bar>py_round (vote_average (df st ! w_index w)) 1 - vote_average (df st ! w_index w)\<bar> \<le> 1 / 20"
    by (rule py_round_1_bound)
  with f(2) have b: "min_rating - 1 / 20 \<le> py_round (vote_average (df st ! w_index w)) 1" by linarith
  show ?thesis
    apply (rule exI[where x = "w_index w"])
    using i f b by (simp add: rw format_row_fields m)
qed

text \<open>
  The statement at the catalog \<open>ex_store\<close> with \<open>min_rating = 6.01\<close>, for the
  returned entry \<open>''Big''\<close>.
\<close>

theorem filter_correctness_witness:
  "get_recommendations ex_store ''heat'' 10 0 (601 / 100) =
     Inr (Recommendations ''Heat'' 3
       [\<lparr>r_title = ''Heat 2'', r_rating = 68 / 10, r_votes = 100, r_similarity = 8 / 10,
          r_score = Finite (792 / 1000)\<rparr>,
        \<lparr>r_title = ''Up'', r_rating = 79 / 10, r_votes = 100, r_similarity = 6 / 10,
          r_score = Finite (701 / 1000)\<rparr>,
        \<lparr>r_title = ''Big'', r_rating = 6, r_votes = 0, r_similarity = 0,
          r_score = Finite (169 / 1000)\<rparr>])
   \<and> (\<exists>i<length (df ex_store).
          ''Big'' = title (df ex_store ! i)
        \<and> (0::nat) = vote_count (df ex_store ! i)
        \<and> (6::real) = py_round (vote_average (df ex_store ! i)) 1
        \<and> 0 \<le> int (vote_count (df ex_store ! i))
        \<and> 601 / 100 \<le> vote_average (df ex_store ! i)
        \<and> (0::int) \<le> int 0
        \<and> 601 / 100 - 1 / 20 \<le> (6::real))"
proof -
  let ?big = "\<lparr>r_title = ''Big'', r_rating = 6, r_votes = 0, r_similarity = 0,
          r_score = Finite (169 / 1000)\<rparr>"
  have mem: "?big \<in> set [\<lparr>r_title = ''Heat 2'', r_rating = 68 / 10, r_votes = 100, r_similarity = 8 / 10,
          r_score = Finite (792 / 1000)\<rparr>,
        \<lparr>r_title = ''Up'', r_rating = 79 / 10, r_votes = 100, r_similarity = 6 / 10,
          r_score = Finite (701 / 1000)\<rparr>, ?big]" by simp
  have sel: "r_title ?big = ''Big''" "r_votes ?big = 0" "r_rating ?big = 6" by simp_all
  note c = filter_correctness[OF ex_store_min_rating mem, unfolded sel]
  from ex_store_min_rating c show ?thesis by (rule conjI)
qed

text \<open>
  The rounded rating can fall below the threshold: with \<open>min_rating = 6.01\<close> the row
  \<open>''Big''\<close>, rated 6.04, passes the filter and is returned with the rating 6.0.
\<close>

theorem rounded_rating_below_min_rating:
  "get_recommendations ex_store ''heat'' 10 0 (601 / 100) =
     Inr (Recommendations ''Heat'' 3
       [\<lparr>r_title = ''Heat 2'', r_rating = 68 / 10, r_votes = 100, r_similarity = 8 / 10,
          r_score = Finite (792 / 1000)\<rparr>,
        \<lparr>r_title = ''Up'', r_rating = 79 / 10, r_votes = 100, r_similarity = 6 / 10,
          r_score = Finite (701 / 1000)\<rparr>,
        \<lparr>r_title = ''Big'', r_rating = 6, r_votes = 0, r_similarity = 0,
          r_score = Finite (169 / 1000)\<rparr>])
   \<and> r_rating \<lparr>r_title = ''Big'', r_rating = 6, r_votes = 0, r_similarity = 0,
          r_score = Finite (169 / 1000)\<rparr> < 601 / 100"
  using ex_store_min_rating by simp

section \<open>Self-exclusion\<close>

text \<open>
  Claim C3 (self-exclusion), as the code has it.  The filter excludes the anchor by its row
  index: the anchor row is never among the selected rows.  When the titles of the catalog are
  pairwise distinct, no returned entry bears the resolved title.
\<close>

theorem self_exclusion_by_row:
  assumes ok: "get_recommendations st q top_n min_votes min_rating = Inr (Recommendations t k recs)"
  shows "\<exists>movie_idx<length (df st).
            title (df st ! movie_idx) = t
          \<and> recs = map format_row (recommended_rows st movie_idx top_n min_votes min_rating)
          \<and> movie_idx \<notin> w_index ` set (recommended_rows st movie_idx top_n min_votes min_rating)
          \<and> (distinct (map title (df st)) \<longrightarrow> t \<notin> r_title ` set recs)"
proof -
  from get_recommendations_success[OF ok] obtain movie_idx rest where
    tm: "title_matches (df st) t = movie_idx # rest"
    and len: "length (embeddings st) = length (df st)"
    and recs: "recs = map format_row (recommended_rows st movie_idx top_n min_votes min_rating)"
    by blast
  from title_matches_Cons[OF tm] have lt: "movie_idx < length (df st)"
    and ti: "title (df st ! movie_idx) = t" by simp_all
  have mem: "\<And>w. w \<in> set (recommended_rows st movie_idx top_n min_votes min_rating) \<Longrightarrow>
       w_index w < length (df st) \<and> w_movie w = df st ! w_index w \<and> w_index w \<noteq> movie_idx"
  proof -
    fix w assume "w \<in> set (recommended_rows st movie_idx top_n min_votes min_rating)"
    with recommended_rows_subset have "w \<in> set (filter_rows min_votes min_rating movie_idx
      (df_work (df st) (cosine_similarity (embeddings st ! movie_idx) (embeddings st))))" by blast
    from recommended_rows_mem[OF len this]
    show "w_index w < length (df st) \<and> w_movie w = df st ! w_index w \<and> w_index w \<noteq> movie_idx"
      by (metis work_row_fields(2))
  qed
  have excl: "movie_idx \<notin> w_index ` set (recommended_rows st movie_idx top_n min_votes min_rating)"
    using mem by blast
  have dist: "distinct (map title (df st)) \<longrightarrow> t \<notin> r_title ` set recs"
  proof (intro impI notI)
    assume d: "distinct (map title (df st))" and "t \<in> r_title ` set recs"
    then obtain w where w: "w \<in> set (recommended_rows st movie_idx top_n min_votes min_rating)"
      and tw: "title (w_movie w) = t" unfolding recs by (auto simp: format_row_fields)
    from mem[OF w] tw have i: "w_index w < length (df st)" "title (df st ! w_index w) = t"
      "w_index w \<noteq> movie_idx" by simp_all
    from i(1,2) lt ti have e: "map title (df st) ! w_index w = map title (df st) ! movie_idx" by simp
    have "(map title (df st) ! w_index w = map title (df st) ! movie_idx) = (w_index w = movie_idx)"
      by (rule nth_eq_iff_index_eq) (use d i(1) lt in simp_all)
    with e have "w_index w = movie_idx" by blast
    with i(3) show False by simp
  qed
  show ?thesis using lt ti recs excl dist by blast
qed

text \<open>
  The statement at the catalog \<open>ex_store\<close>, whose titles are distinct, and the query
  \<open>''heat''\<close>.
\<close>

theorem self_exclusion_by_row_witness:
  "get_recommendations ex_store ''heat'' 2 0 0 =
     Inr (Recommendations ''Heat'' 2
       [\<lparr>r_title = ''Heat 2'', r_rating = 68 / 10, r_votes = 100, r_similarity = 8 / 10,
          r_score = Finite (792 / 1000)\<rparr>,
        \<lparr>r_title = ''Up'', r_rating = 79 / 10, r_votes = 100, r_similarity = 6 / 10,
          r_score = Finite (701 / 1000)\<rparr>])
   \<and> distinct (map title (df ex_store))
   \<and> (\<exists>movie_idx<length (df ex_store).
         title (df ex_store ! movie_idx) = ''Heat''
       \<and> movie_idx \<notin> w_index ` set (recommended_rows ex_store movie_idx 2 0 0)
       \<and> ''Heat'' \<notin> r_title `
            set [\<lparr>r_title = ''Heat 2'', r_rating = 68 / 10, r_votes = 100, r_similarity = 8 / 10,
                   r_score = Finite (792 / 1000)\<rparr>,
                 \<lparr>r_title = ''Up'', r_rating = 79 / 10, r_votes = 100, r_similarity = 6 / 10,
                   r_score = Finite (701 / 1000)\<rparr>])"
proof -
  have d: "distinct (map title (df ex_store))" by (simp add: example_defs)
  from self_exclusion_by_row[OF ex_store_heat] have "\<exists>movie_idx<length (df ex_store).
         title (df ex_store ! movie_idx) = ''Heat''
       \<and> movie_idx \<notin> w_index ` set (recommended_rows ex_store movie_idx 2 0 0)
       \<and> ''Heat'' \<notin> r_title `
            set [\<lparr>r_title = ''Heat 2'', r_rating = 68 / 10, r_votes = 100, r_similarity = 8 / 10,
                   r_score = Finite (792 / 1000)\<rparr>,
                 \<lparr>r_title = ''Up'', r_rating = 79 / 10, r_votes = 100, r_similarity = 6 / 10,
                   r_score = Finite (701 / 1000)\<rparr>]"
  proof (elim exE conjE, goal_cases)
    case (1 movie_idx)
    note n = 1(5)[THEN mp, OF d]
    show ?case
      apply (rule exI[where x = movie_idx])
      apply (intro conjI)
         apply (rule 1(1))
        apply (rule 1(2))
       apply (rule 1(4))
      apply (rule n)
      done
  qed
  with ex_store_heat d show ?thesis by (intro conjI)
qed

text \<open>
  In a catalog with two rows titled \<open>''Heat''\<close>, the recommendations for
  \<open>''Heat''\<close> contain an entry titled \<open>''Heat''\<close>.
\<close>

theorem duplicate_title_recommended:
  "get_recommendations dup_store ''Heat'' 10 0 0 =
     Inr (Recommendations ''Heat'' 2
       [\<lparr>r_title = ''Heat'', r_rating = 75 / 10, r_votes = 100, r_similarity = 8 / 10,
          r_score = Finite (81 / 100)\<rparr>,
        \<lparr>r_title = ''Up'', r_rating = 79 / 10, r_votes = 100, r_similarity = 0,
          r_score = Finite (341 / 1000)\<rparr>])
   \<and> r_title \<lparr>r_title = ''Heat'', r_rating = 75 / 10, r_votes = 100, r_similarity = 8 / 10,
          r_score = Finite (81 / 100)\<rparr> = ''Heat''"
  using dup_store_heat by simp

section \<open>Empty and whitespace-only queries\<close>

text \<open>
  Claim C4 (empty and whitespace-only queries), as the code has it.  The resolver has no guard
  for such queries; they are scored like any other.  When every known title is non-empty and
  shares no character with the query (as is the case for the empty query, and for a
  whitespace-only query over titles without whitespace), \<open>find_movie\<close> returns no match,
  and \<open>search_movie\<close> selects the first \<open>k = min limit n\<close> of the \<open>n\<close> known
  titles: it returns the first \<open>k\<close> catalog rows in catalog order, each with match score
  0, when the catalog has at least \<open>k\<close> rows, and raises \<open>IndexError\<close> when it has
  fewer.
\<close>

theorem empty_query_scored_zero:
  assumes disj: "\<forall>t\<in>set (movie_titles st). t \<noteq> [] \<and> set q \<inter> set t = {}"
  shows "find_movie st q 60 = None
       \<and> (min (nat limit) (length (movie_titles st)) \<le> length (df st) \<longrightarrow>
            search_movie st q limit =
              Inr (map (\<lambda>i. \<lparr>s_title = title (df st ! i),
                               s_match_score = 0,
                               s_rating = py_round (vote_average (df st ! i)) 1,
                               s_votes = vote_count (df st ! i)\<rparr>)
                     [0..<min (nat limit) (length (movie_titles st))]))
       \<and> (length (df st) < min (nat limit) (length (movie_titles st)) \<longrightarrow>
            search_movie st q limit = Inl IndexError)"
proof -
  let ?cs = "movie_titles st"
  let ?k = "min (nat limit) (length ?cs)"
  have z: "\<forall>t\<in>set ?cs. ratio q t = 0" using disj ratio_disjoint by blast
  have r0: "\<And>i. i < length ?cs \<Longrightarrow> ratio q (?cs ! i) = 0" using z by simp
  have "\<forall>i\<in>set [0..<length ?cs]. - ratio q (?cs ! i) = 0" using r0 by simp
  then have sk: "sort_key (\<lambda>i. - ratio q (?cs ! i)) [0..<length ?cs] = [0..<length ?cs]"
    by (rule sort_key_const)
  have idxs: "take (nat limit) (sort_key (\<lambda>i. - ratio q (?cs ! i)) [0..<length ?cs]) = [0..<?k]"
    unfolding sk by (rule take_upt_min)
  note sm = search_movie_indices[of st q limit, unfolded idxs]
  have f: "find_movie st q 60 = None"
  proof (cases "process_extractOne q ?cs")
    case None then show ?thesis by (simp add: find_movie_def)
  next
    case (Some r)
    obtain m sc i where r: "r = (m, sc, i)" by (cases r) auto
    from process_extractOne_Some[OF Some[unfolded r]] z have "sc = 0" by auto
    with Some r show ?thesis by (simp add: find_movie_def)
  qed
  have mapeq: "map (\<lambda>i. \<lparr>s_title = title (df st ! i),
                          s_match_score = py_round (ratio q (?cs ! i)) 1,
                          s_rating = py_round (vote_average (df st ! i)) 1,
                          s_votes = vote_count (df st ! i)\<rparr>) [0..<?k]
             = map (\<lambda>i. \<lparr>s_title = title (df st ! i),
                          s_match_score = 0,
                          s_rating = py_round (vote_average (df st ! i)) 1,
                          s_votes = vote_count (df st ! i)\<rparr>) [0..<?k]"
    by (rule map_cong[OF refl]) (simp add: r0 py_round_0)
  have ok: "?k \<le> length (df st) \<longrightarrow>
            search_movie st q limit =
              Inr (map (\<lambda>i. \<lparr>s_title = title (df st ! i),
                               s_match_score = 0,
                               s_rating = py_round (vote_average (df st ! i)) 1,
                               s_votes = vote_count (df st ! i)\<rparr>) [0..<?k])"
  proof
    assume "?k \<le> length (df st)"
    then have c: "\<forall>i\<in>set [0..<?k]. i < length (df st)" by auto
    have "search_movie st q limit =
       Inr (map (\<lambda>i. \<lparr>s_title = title (df st ! i),
                          s_match_score = py_round (ratio q (?cs ! i)) 1,
                          s_rating = py_round (vote_average (df st ! i)) 1,
                          s_votes = vote_count (df st ! i)\<rparr>) [0..<?k])"
      by (rule sm[unfolded if_P[OF c]])
    then show "search_movie st q limit =
              Inr (map (\<lambda>i. \<lparr>s_title = title (df st ! i),
                               s_match_score = 0,
                               s_rating = py_round (vote_average (df st ! i)) 1,
                               s_votes = vote_count (df st ! i)\<rparr>) [0..<?k])"
      unfolding mapeq .
  qed
  have bad: "length (df st) < ?k \<longrightarrow> search_movie st q limit = Inl IndexError"
  proof
    assume "length (df st) < ?k"
    then have "length (df st) \<in> set [0..<?k]" by simp
    then have nc: "\<not> (\<forall>i\<in>set [0..<?k]. i < length (df st))" by blast
    show "search_movie st q limit = Inl IndexError" by (rule sm[unfolded if_not_P[OF nc]])
  qed
  from f ok bad show ?thesis by (intro conjI)
qed

text \<open>
  The statement at the catalog \<open>zero_store\<close>, the query of two spaces and the limit 5,
  where two rows are returned, and at \<open>bad_store\<close>, the empty query and the limit 3, where
  the third title has no catalog row.
\<close>

theorem empty_query_scored_zero_witness:
  "list_all (\<lambda>t. t \<noteq> [] \<and> set ''  '' \<inter> set t = {}) (movie_titles zero_store)
   \<and> find_movie zero_store ''  '' 60 = None
   \<and> min (nat 5) (length (movie_titles zero_store)) \<le> length (df zero_store)
   \<and> search_movie zero_store ''  '' 5 =
       Inr [\<lparr>s_title = ''Heat'', s_match_score = 0, s_rating = 82 / 10, s_votes = 0\<rparr>,
            \<lparr>s_title = ''Up'', s_match_score = 0, s_rating = 79 / 10, s_votes = 0\<rparr>]
   \<and> list_all (\<lambda>t. t \<noteq> [] \<and> set [] \<inter> set t = {}) (movie_titles bad_store)
   \<and> length (df bad_store) < min (nat 3) (length (movie_titles bad_store))
   \<and> search_movie bad_store [] 3 = Inl IndexError"
proof -
  have h1: "\<forall>t\<in>set (movie_titles zero_store). t \<noteq> [] \<and> set ''  '' \<inter> set t = {}"
    by (simp add: zero_store_def)
  have l1: "list_all (\<lambda>t. t \<noteq> [] \<and> set ''  '' \<inter> set t = {}) (movie_titles zero_store)"
    by (simp add: zero_store_def)
  have k1: "min (nat 5) (length (movie_titles zero_store)) \<le> length (df zero_store)"
    by (simp add: zero_store_def)
  have ev: "map (\<lambda>i. \<lparr>s_title = title (df zero_store ! i), s_match_score = 0,
                        s_rating = py_round (vote_average (df zero_store ! i)) 1,
                        s_votes = vote_count (df zero_store ! i)\<rparr>)
              [0..<min (nat 5) (length (movie_titles zero_store))]
          = [\<lparr>s_title = ''Heat'', s_match_score = 0, s_rating = 82 / 10, s_votes = 0\<rparr>,
             \<lparr>s_title = ''Up'', s_match_score = 0, s_rating = 79 / 10, s_votes = 0\<rparr>]"
    by (simp add: zero_store_def ex_movie_def py_round_def round_half_even_def upt_rec)
  note c = empty_query_scored_zero[OF h1, of 5]
  note f = c[THEN conjunct1]
  note s = c[THEN conjunct2, THEN conjunct1, THEN mp, OF k1, unfolded ev]
  have h2: "\<forall>t\<in>set (movie_titles bad_store). t \<noteq> [] \<and> set [] \<inter> set t = {}"
    by (simp add: bad_store_def)
  have l2: "list_all (\<lambda>t. t \<noteq> [] \<and> set [] \<inter> set t = {}) (movie_titles bad_store)"
    by (simp add: bad_store_def)
  have k2: "length (df bad_store) < min (nat 3) (length (movie_titles bad_store))"
    by (simp add: bad_store_def)
  note b = empty_query_scored_zero[OF h2, of 3, THEN conjunct2, THEN conjunct2, THEN mp, OF k2]
  from l1 f k1 s l2 k2 b show ?thesis by (intro conjI)
qed

text \<open>
  The empty query yields three results on \<open>ex_store\<close>, and the query of three spaces
  resolves to the title \<open>''A B C D''\<close>, which it matches with score 60.
\<close>

theorem empty_query_counterexample:
  "search_movie ex_store [] 3 =
     Inr [\<lparr>s_title = ''Heat'', s_match_score = 0, s_rating = 82 / 10, s_votes = 100\<rparr>,
          \<lparr>s_title = ''Heat 2'', s_match_score = 0, s_rating = 68 / 10, s_votes = 100\<rparr>,
          \<lparr>s_title = ''Up'', s_match_score = 0, s_rating = 79 / 10, s_votes = 100\<rparr>]
   \<and> search_movie ex_store [] 3 \<noteq> Inr []
   \<and> find_movie spaced_store ''   '' 60 = Some ''A B C D''"
proof -
  have "find_movie spaced_store ''   '' 60 = Some ''A B C D''"
    by (simp add: resolver_defs example_defs)
  with ex_store_empty_query show ?thesis by simp
qed

section \<open>Degenerate catalog\<close>

text \<open>
  Claim C5 (degenerate catalog).  On the catalog \<open>zero_store\<close>, in which no row has a
  vote, the largest vote count is 0, the popularity term is \<open>0 / 0\<close> and the quality
  score of every row is \<open>NaN\<close>, where \<open>0.7 * rating / 10\<close> would be 0.574 and 0.553.
  The call raises no exception and returns the remaining row with the score \<open>NaN\<close>.
\<close>

theorem degenerate_catalog_nan:
  "get_recommendations zero_store ''Heat'' 10 0 0 =
     Inr (Recommendations ''Heat'' 1
       [\<lparr>r_title = ''Up'', r_rating = 79 / 10, r_votes = 0, r_similarity = 0, r_score = NaN\<rparr>])
   \<and> series_max (map vote_count (df zero_store)) = Finite 0
   \<and> map w_quality_score
       (df_work (df zero_store)
          (cosine_similarity (embeddings zero_store ! 0) (embeddings zero_store))) = [NaN, NaN]
   \<and> map (\<lambda>m. Finite (0.7 * (vote_average m / 10))) (df zero_store)
       = [Finite (574 / 1000), Finite (553 / 1000)]"
  by (simp add: engine_defs resolver_defs example_defs upt_rec)

section \<open>Loading the artifact\<close>

text \<open>
  Claim C6 (loading the artifact), as the code has it.  \<open>load_model\<close> re-raises the
  exception of \<open>open\<close> when the path cannot be opened and the exception of
  \<open>pickle.load\<close> when deserialisation fails, and raises \<open>KeyError\<close> when one of the
  three keys is missing.  When the file is read and all three keys are present it stores the
  three collections as they are; their lengths are not compared.
\<close>

theorem load_model_outcomes:
  "(open_read (model_path s) = Inl e \<longrightarrow> load_model open_read pickle_load s = (Some e, s))
   \<and> (open_read (model_path s) = Inr bytes \<and> pickle_load bytes = Inl e \<longrightarrow>
        load_model open_read pickle_load s = (Some e, s))
   \<and> (open_read (model_path s) = Inr bytes \<and> pickle_load bytes = Inr m
        \<and> (m ''dataframe'' = None \<or> m ''embeddings'' = None \<or> m ''movie_titles'' = None) \<longrightarrow>
        fst (load_model open_read pickle_load s) = Some KeyError)
   \<and> (open_read (model_path s) = Inr bytes \<and> pickle_load bytes = Inr m
        \<and> m ''dataframe'' = Some d \<and> m ''embeddings'' = Some em \<and> m ''movie_titles'' = Some ts \<longrightarrow>
        load_model open_read pickle_load s =
          (None, s\<lparr>s_model := Some m, s_df := Some d, s_embeddings := Some em,
                   s_movie_titles := Some ts\<rparr>))"
  by (auto simp: load_model_def Let_def split: sum.splits option.splits)

text \<open>
  The four cases of the statement: a missing file, an unreadable pickle, an artifact without
  embeddings and titles, and the artifact \<open>bad_artifact\<close>.
\<close>

theorem load_model_outcomes_witness:
  "load_model (\<lambda>p. Inl FileNotFoundError) (\<lambda>b. Inl UnpicklingError) new_service
     = (Some FileNotFoundError, new_service)
   \<and> load_model (\<lambda>p. Inr ''pickle'') (\<lambda>b. Inl UnpicklingError) new_service
     = (Some UnpicklingError, new_service)
   \<and> fst (load_model (\<lambda>p. Inr ''pickle'') (\<lambda>b. Inr (Map.empty(''dataframe'' \<mapsto> DataFrame []))) new_service)
     = Some KeyError
   \<and> load_model (\<lambda>p. Inr ''pickle'') (\<lambda>b. Inr bad_artifact) new_service
     = (None, new_service\<lparr>s_model := Some bad_artifact,
          s_df := Some (DataFrame [ex_movie ''Heat'' 8.2 100, ex_movie ''Up'' 7.9 100]),
          s_embeddings := Some (NDArray [[1, 0]]),
          s_movie_titles := Some (StrList [''Heat'', ''Up'', ''Big''])\<rparr>)"
proof -
  note a = load_model_outcomes[where open_read = "\<lambda>p. Inl FileNotFoundError" and s = new_service
      and e = FileNotFoundError and pickle_load = "\<lambda>b. Inl UnpicklingError", THEN conjunct1, THEN mp, OF refl]
  have hb: "(\<lambda>p. Inr ''pickle'') (model_path new_service) = Inr ''pickle''
            \<and> (\<lambda>b. Inl UnpicklingError) ''pickle'' = Inl UnpicklingError" by simp
  note b = load_model_outcomes[where open_read = "\<lambda>p. Inr ''pickle''" and s = new_service
      and e = UnpicklingError and pickle_load = "\<lambda>b. Inl UnpicklingError" and bytes = "''pickle''",
      THEN conjunct2, THEN conjunct1, THEN mp, OF hb]
  let ?m = "Map.empty(''dataframe'' \<mapsto> DataFrame [])"
  have hc: "(\<lambda>p. Inr ''pickle'') (model_path new_service) = Inr ''pickle''
            \<and> (\<lambda>b. Inr ?m) ''pickle'' = Inr ?m
            \<and> (?m ''dataframe'' = None \<or> ?m ''embeddings'' = None \<or> ?m ''movie_titles'' = None)"
    by simp
  note c = load_model_outcomes[where open_read = "\<lambda>p. Inr ''pickle''" and s = new_service
      and pickle_load = "\<lambda>b. Inr ?m" and bytes = "''pickle''" and m = ?m,
      THEN conjunct2, THEN conjunct2, THEN conjunct1, THEN mp, OF hc]
  have hd: "(\<lambda>p. Inr ''pickle'') (model_path new_service) = Inr ''pickle''
            \<and> (\<lambda>b. Inr bad_artifact) ''pickle'' = Inr bad_artifact
            \<and> bad_artifact ''dataframe'' = Some (DataFrame [ex_movie ''Heat'' 8.2 100, ex_movie ''Up'' 7.9 100])
            \<and> bad_artifact ''embeddings'' = Some (NDArray [[1, 0]])
            \<and> bad_artifact ''movie_titles'' = Some (StrList [''Heat'', ''Up'', ''Big''])"
    by (simp add: bad_artifact_def)
  note d = load_model_outcomes[where open_read = "\<lambda>p. Inr ''pickle''" and s = new_service
      and pickle_load = "\<lambda>b. Inr bad_artifact" and bytes = "''pickle''" and m = bad_artifact,
      THEN conjunct2, THEN conjunct2, THEN conjunct2, THEN mp, OF hd]
  from a b c d show ?thesis by (intro conjI)
qed

text \<open>
  The artifact \<open>bad_artifact\<close>, whose collections have the lengths 2, 1 and 3, is loaded
  without an error.
\<close>

theorem load_model_length_mismatch:
  "load_model (\<lambda>p. Inr ''pickle'') (\<lambda>b. Inr bad_artifact) new_service =
     (None, new_service\<lparr>s_model := Some bad_artifact,
        s_df := Some (DataFrame [ex_movie ''Heat'' 8.2 100, ex_movie ''Up'' 7.9 100]),
        s_embeddings := Some (NDArray [[1, 0]]),
        s_movie_titles := Some (StrList [''Heat'', ''Up'', ''Big''])\<rparr>)
   \<and> obj_len (DataFrame [ex_movie ''Heat'' 8.2 100, ex_movie ''Up'' 7.9 100]) = 2
   \<and> obj_len (NDArray [[1, 0]]) = 1
   \<and> obj_len (StrList [''Heat'', ''Up'', ''Big'']) = 3"
  by (simp add: load_model_def bad_artifact_def)

section \<open>Threshold boundary\<close>

text \<open>
  Claim C7 (threshold boundary).  Let the best fuzzy match of a query have the score
  \<open>score\<close>.  With the threshold 60, \<open>find_movie\<close> returns the matched title when the
  score is exactly 60, and returns no match when the score is below 60, in which case
  \<open>get_recommendations\<close> takes the suggestion path; in general the title is returned
  exactly when \<open>60 \<le> score\<close>.  The best match is a known title with the highest
  \<open>ratio\<close> among all known titles.
\<close>

theorem threshold_boundary:
  assumes "process_extractOne q (movie_titles st) = Some (m, score, idx)"
  shows "(score = 60 \<longrightarrow> find_movie st q 60 = Some m)
       \<and> (score < 60 \<longrightarrow> find_movie st q 60 = None
             \<and> get_recommendations st q top_n min_votes min_rating = not_found st q)
       \<and> (find_movie st q 60 = Some m \<longleftrightarrow> 60 \<le> score)
       \<and> idx < length (movie_titles st) \<and> m = movie_titles st ! idx \<and> score = ratio q m
       \<and> (\<forall>j<length (movie_titles st). ratio q (movie_titles st ! j) \<le> score)"
  using assms process_extractOne_Some[OF assms]
  by (auto simp: find_movie_def get_recommendations_def)

text \<open>
  The statement on \<open>ex_store\<close>: the query \<open>''Heaxyz''\<close> matches \<open>''Heat''\<close>
  with score exactly 60 and is accepted, the query \<open>''Hexyz''\<close> matches it with score
  \<open>400 / 9\<close> and is rejected.
\<close>

theorem threshold_boundary_witness:
  "process_extractOne ''Heaxyz'' (movie_titles ex_store) = Some (''Heat'', 60, 0)
   \<and> find_movie ex_store ''Heaxyz'' 60 = Some ''Heat''
   \<and> process_extractOne ''Hexyz'' (movie_titles ex_store) = Some (''Heat'', 400 / 9, 0)
   \<and> find_movie ex_store ''Hexyz'' 60 = None
   \<and> get_recommendations ex_store ''Hexyz'' 10 50 6 = not_found ex_store ''Hexyz''"
proof -
  note a = threshold_boundary[OF ex_store_extractOne_60, of 10 50 6, THEN conjunct1]
  note b = threshold_boundary[OF ex_store_extractOne_below, of 10 50 6, THEN conjunct2, THEN conjunct1]
  from a have f1: "find_movie ex_store ''Heaxyz'' 60 = Some ''Heat''" by simp
  from b have f2: "find_movie ex_store ''Hexyz'' 60 = None
      \<and> get_recommendations ex_store ''Hexyz'' 10 50 6 = not_found ex_store ''Hexyz''" by simp
  from ex_store_extractOne_60 f1 ex_store_extractOne_below f2 show ?thesis by (intro conjI) simp_all
qed

section \<open>Not found\<close>




section \<open>Bounded size\<close>

text \<open>
  Claim C9 (bounded size).  A successful call of \<open>get_recommendations\<close> returns at most
  \<open>top_n\<close> recommendations (none when \<open>top_n\<close> is not positive) and reports their
  number, and \<open>search_movie\<close> returns at most \<open>limit\<close> results.
\<close>

theorem bounded_size:
  "(get_recommendations st q top_n min_votes min_rating = Inr (Recommendations t k recs)
      \<longrightarrow> int (length recs) \<le> max 0 top_n \<and> k = length recs)
   \<and> (search_movie st q limit = Inr results \<longrightarrow> int (length results) \<le> max 0 limit)"
proof (intro conjI impI)
  assume a: "get_recommendations st q top_n min_votes min_rating = Inr (Recommendations t k recs)"
  from get_recommendations_success[OF a] obtain movie_idx where
    r: "recs = map format_row (recommended_rows st movie_idx top_n min_votes min_rating)"
    and k: "k = length recs" by blast
  show "k = length recs" by (rule k)
  have "length recs = length (recommended_rows st movie_idx top_n min_votes min_rating)"
    unfolding r by simp
  also have "int \<dots> \<le> max 0 top_n"
    unfolding recommended_rows_def Let_def by (rule length_nlargest)
  finally show "int (length recs) \<le> max 0 top_n" .
next
  assume "search_movie st q limit = Inr results"
  from search_movie_length[OF this] show "int (length results) \<le> max 0 limit" by linarith
qed

text \<open>
  The statement on \<open>ex_store\<close>: two recommendations for \<open>top_n = 2\<close>, three
  search results for \<open>limit = 3\<close>.
\<close>

theorem bounded_size_witness:
  "get_recommendations ex_store ''heat'' 2 0 0 =
     Inr (Recommendations ''Heat'' 2
       [\<lparr>r_title = ''Heat 2'', r_rating = 68 / 10, r_votes = 100, r_similarity = 8 / 10,
          r_score = Finite (792 / 1000)\<rparr>,
        \<lparr>r_title = ''Up'', r_rating = 79 / 10, r_votes = 100, r_similarity = 6 / 10,
          r_score = Finite (701 / 1000)\<rparr>])
   \<and> int (length
       [\<lparr>r_title = ''Heat 2'', r_rating = 68 / 10, r_votes = 100, r_similarity = 8 / 10,
          r_score = Finite (792 / 1000)\<rparr>,
        \<lparr>r_title = ''Up'', r_rating = 79 / 10, r_votes = 100, r_similarity = 6 / 10,
          r_score = Finite (701 / 1000)\<rparr>]) \<le> max 0 2
   \<and> search_movie ex_store [] 3 =
     Inr [\<lparr>s_title = ''Heat'', s_match_score = 0, s_rating = 82 / 10, s_votes = 100\<rparr>,
          \<lparr>s_title = ''Heat 2'', s_match_score = 0, s_rating = 68 / 10, s_votes = 100\<rparr>,
          \<lparr>s_title = ''Up'', s_match_score = 0, s_rating = 79 / 10, s_votes = 100\<rparr>]
   \<and> int (length
         [\<lparr>s_title = ''Heat'', s_match_score = 0, s_rating = 82 / 10, s_votes = 100\<rparr>,
          \<lparr>s_title = ''Heat 2'', s_match_score = 0, s_rating = 68 / 10, s_votes = 100\<rparr>,
          \<lparr>s_title = ''Up'', s_match_score = 0, s_rating = 79 / 10, s_votes = 100\<rparr>]) \<le> max 0 3"
proof -
  note a = bounded_size[THEN conjunct1, THEN mp, OF ex_store_heat, THEN conjunct1]
  note b = bounded_size[THEN conjunct2, THEN mp, OF ex_store_empty_query]
  from ex_store_heat a ex_store_empty_query b show ?thesis by (intro conjI)
qed

section \<open>Duplicate titles\<close>

text \<open>
  Claim C10 (duplicate titles).  A successful call of \<open>get_recommendations\<close> anchors on the
  row of lowest index that bears the resolved title.  The candidate set consists of exactly the
  rows other than the anchor row that pass the vote and rating thresholds, whatever their
  title, and all of them are returned when \<open>top_n\<close> is at least their number.
\<close>

theorem duplicate_title_anchor:
  assumes ok: "get_recommendations st q top_n min_votes min_rating = Inr (Recommendations t k recs)"
  shows "\<exists>movie_idx cands.
            movie_idx < length (df st) \<and> title (df st ! movie_idx) = t
          \<and> (\<forall>j<movie_idx. title (df st ! j) \<noteq> t)
          \<and> cands = filter_rows min_votes min_rating movie_idx
                      (df_work (df st) (cosine_similarity (embeddings st ! movie_idx) (embeddings st)))
          \<and> recs = map format_row (nlargest top_n cands)
          \<and> (\<forall>j. j \<in> w_index ` set cands \<longleftrightarrow>
                 j < length (df st) \<and> j \<noteq> movie_idx
               \<and> min_votes \<le> int (vote_count (df st ! j)) \<and> min_rating \<le> vote_average (df st ! j))
          \<and> (int (length cands) \<le> top_n \<longrightarrow> set (nlargest top_n cands) = set cands)"
proof -
  from get_recommendations_success[OF ok] obtain movie_idx rest where
    tm: "title_matches (df st) t = movie_idx # rest"
    and len: "length (embeddings st) = length (df st)"
    and recs: "recs = map format_row (recommended_rows st movie_idx top_n min_votes min_rating)"
    by blast
  let ?cands = "filter_rows min_votes min_rating movie_idx
                      (df_work (df st) (cosine_similarity (embeddings st ! movie_idx) (embeddings st)))"
  from title_matches_Cons[OF tm] have lt: "movie_idx < length (df st)"
    and ti: "title (df st ! movie_idx) = t" and first: "\<forall>j<movie_idx. title (df st ! j) \<noteq> t" by simp_all
  have r: "recs = map format_row (nlargest top_n ?cands)"
    using recs by (simp add: recommended_rows_def Let_def)
  have iff: "\<forall>j. j \<in> w_index ` set ?cands \<longleftrightarrow>
                 j < length (df st) \<and> j \<noteq> movie_idx
               \<and> min_votes \<le> int (vote_count (df st ! j)) \<and> min_rating \<le> vote_average (df st ! j)"
    using filter_rows_index_iff[OF len] by blast
  have all: "int (length ?cands) \<le> top_n \<longrightarrow> set (nlargest top_n ?cands) = set ?cands"
    using nlargest_all by blast
  show ?thesis
    apply (rule exI[where x = movie_idx])
    apply (rule exI[where x = ?cands])
    apply (intro conjI)
          apply (rule lt)
         apply (rule ti)
        apply (rule first)
       apply (rule refl)
      apply (rule r)
     apply (rule iff)
    apply (rule all)
    done
qed

text \<open>
  The statement on \<open>dup_store\<close>, where rows 0 and 1 are both titled
  \<open>''Heat''\<close>: row 0 is the anchor, row 1 is a candidate and is returned.
\<close>

theorem duplicate_title_anchor_witness:
  "get_recommendations dup_store ''Heat'' 10 0 0 =
     Inr (Recommendations ''Heat'' 2
       [\<lparr>r_title = ''Heat'', r_rating = 75 / 10, r_votes = 100, r_similarity = 8 / 10,
          r_score = Finite (81 / 100)\<rparr>,
        \<lparr>r_title = ''Up'', r_rating = 79 / 10, r_votes = 100, r_similarity = 0,
          r_score = Finite (341 / 1000)\<rparr>])
   \<and> title (df dup_store ! 0) = ''Heat'' \<and> title (df dup_store ! 1) = ''Heat''
   \<and> (\<exists>cands. 1 \<in> w_index ` set cands \<and> 0 \<notin> w_index ` set cands
         \<and> set (nlargest 10 cands) = set cands
         \<and> map format_row (nlargest 10 cands) =
             [\<lparr>r_title = ''Heat'', r_rating = 75 / 10, r_votes = 100, r_similarity = 8 / 10,
                r_score = Finite (81 / 100)\<rparr>,
              \<lparr>r_title = ''Up'', r_rating = 79 / 10, r_votes = 100, r_similarity = 0,
                r_score = Finite (341 / 1000)\<rparr>])"
proof -
  have t0: "title (df dup_store ! 0) = ''Heat''" and t1: "title (df dup_store ! 1) = ''Heat''"
    by (simp_all add: example_defs)
  have l: "length (df dup_store) = 3" by (simp add: example_defs)
  have row1: "0 \<le> int (vote_count (df dup_store ! 1))" "0 \<le> vote_average (df dup_store ! 1)"
    by (simp_all add: example_defs)
  from duplicate_title_anchor[OF dup_store_heat] have "\<exists>cands.
           1 \<in> w_index ` set cands \<and> 0 \<notin> w_index ` set cands
         \<and> set (nlargest 10 cands) = set cands
         \<and> map format_row (nlargest 10 cands) =
             [\<lparr>r_title = ''Heat'', r_rating = 75 / 10, r_votes = 100, r_similarity = 8 / 10,
                r_score = Finite (81 / 100)\<rparr>,
              \<lparr>r_title = ''Up'', r_rating = 79 / 10, r_votes = 100, r_similarity = 0,
                r_score = Finite (341 / 1000)\<rparr>]"
  proof (elim exE conjE, goal_cases)
    case (1 movie_idx cands)
    note first = 1(3) and c = 1(4) and r = 1(5) and iff = 1(6) and all = 1(7)
    have m0: "movie_idx = 0"
    proof (rule ccontr)
      assume "movie_idx \<noteq> 0"
      then have "0 < movie_idx" by simp
      with first t0 show False by blast
    qed
    have in1: "1 \<in> w_index ` set cands"
      using iff[rule_format, of 1, THEN iffD2] m0 l row1 by simp
    have out0: "0 \<notin> w_index ` set cands"
      using iff[rule_format, of 0, THEN iffD1] m0 by blast
    have "length cands \<le> length (df_work (df dup_store)
             (cosine_similarity (embeddings dup_store ! movie_idx) (embeddings dup_store)))"
      unfolding c filter_rows_def by (rule length_filter_le)
    also have "\<dots> \<le> length (df dup_store)" by (simp add: length_df_work)
    finally have lc: "int (length cands) \<le> 10" using l by simp
    note a = all[THEN mp, OF lc]
    show ?case
      apply (rule exI[where x = cands])
      apply (intro conjI)
         apply (rule in1)
        apply (rule out0)
       apply (rule a)
      apply (rule r[symmetric])
      done
  qed
  with dup_store_heat t0 t1 show ?thesis by (intro conjI)
qed

end
